theory Spec2Isabelle
  imports Complex_Main
begin

section \<open>The AfreecaTV extractors of yt-dlp (yt\_dlp/extractor/afreecatv.py)\<close>

text \<open>
  The file holds three extractors: \<^verbatim>\<open>AfreecaTVIE\<close> (a video on demand, with the login),
  \<^verbatim>\<open>AfreecaTVLiveIE\<close> (a live broadcast) and \<^verbatim>\<open>AfreecaTVUserIE\<close> (the listing of a
  user's videos). Each is a sequence of JSON requests whose answers are turned into an
  info dictionary. The model takes the decoded JSON answers as values of the type
  \<open>json\<close>, raised exceptions as the left summand of a sum type, and the warnings and
  manifest downloads a run causes as a list of events returned beside the outcome.
\<close>

subsection \<open>JSON values as Python sees them\<close>

text \<open>
  A decoded JSON document: \<^verbatim>\<open>None\<close>, a \<^verbatim>\<open>bool\<close>, an \<^verbatim>\<open>int\<close> (unbounded), a finite
  \<^verbatim>\<open>float\<close> (kept as a rational), a \<^verbatim>\<open>str\<close>, a \<^verbatim>\<open>list\<close> or a \<^verbatim>\<open>dict\<close> with string keys
  (an association list in insertion order; a key is looked up at its first occurrence).
\<close>

datatype json =
    JNull
  | JBool bool
  | JInt int
  | JFloat rat
  | JStr string
  | JList "json list"
  | JObj "(string \<times> json) list"

text \<open>Python's truth value of an object, as \<^verbatim>\<open>or\<close>, \<^verbatim>\<open>not\<close> and \<^verbatim>\<open>if\<close> use it.\<close>

fun truthy :: "json \<Rightarrow> bool" where
  "truthy JNull = False"
| "truthy (JBool b) = b"
| "truthy (JInt n) = (n \<noteq> 0)"
| "truthy (JFloat q) = (q \<noteq> 0)"
| "truthy (JStr s) = (s \<noteq> [])"
| "truthy (JList xs) = (xs \<noteq> [])"
| "truthy (JObj kvs) = (kvs \<noteq> [])"

text \<open>\<^verbatim>\<open>a or b\<close>.\<close>

definition py_or :: "json \<Rightarrow> json \<Rightarrow> json" where
  "py_or a b = (if truthy a then a else b)"

text \<open>
  The exceptions a run can end with. \<^verbatim>\<open>ExtractorError(msg, expected=...)\<close> keeps its
  message and its \<^verbatim>\<open>expected\<close> flag (an expected error is reported to the user as it
  is, without a request for a bug report); the other three are the interpreter's own.
\<close>

datatype error =
    ExtractorError string bool
  | AttributeError
  | KeyError
  | TypeError

fun expected :: "error \<Rightarrow> bool" where
  "expected (ExtractorError msg e) = e"
| "expected AttributeError = False"
| "expected KeyError = False"
| "expected TypeError = False"

text \<open>\<^verbatim>\<open>obj.get(key)\<close>: only a dict has the method.\<close>

fun py_get :: "json \<Rightarrow> string \<Rightarrow> error + json" where
  "py_get (JObj kvs) k = Inr (case map_of kvs k of Some v \<Rightarrow> v | None \<Rightarrow> JNull)"
| "py_get JNull k = Inl AttributeError"
| "py_get (JBool b) k = Inl AttributeError"
| "py_get (JInt n) k = Inl AttributeError"
| "py_get (JFloat q) k = Inl AttributeError"
| "py_get (JStr s) k = Inl AttributeError"
| "py_get (JList xs) k = Inl AttributeError"

text \<open>\<^verbatim>\<open>obj[key]\<close> with a string key: a dict without the key raises \<^verbatim>\<open>KeyError\<close>, any
  other object \<^verbatim>\<open>TypeError\<close>.\<close>

fun py_getitem :: "json \<Rightarrow> string \<Rightarrow> error + json" where
  "py_getitem (JObj kvs) k = (case map_of kvs k of Some v \<Rightarrow> Inr v | None \<Rightarrow> Inl KeyError)"
| "py_getitem JNull k = Inl TypeError"
| "py_getitem (JBool b) k = Inl TypeError"
| "py_getitem (JInt n) k = Inl TypeError"
| "py_getitem (JFloat q) k = Inl TypeError"
| "py_getitem (JStr s) k = Inl TypeError"
| "py_getitem (JList xs) k = Inl TypeError"

text \<open>\<^verbatim>\<open>str(n)\<close> of a natural number, as an f-string prints a part number.\<close>

definition digit_char :: "nat \<Rightarrow> char" where
  "digit_char d = ''0123456789'' ! d"

fun str_of_nat :: "nat \<Rightarrow> string" where
  "str_of_nat n = (if n < 10 then [digit_char n] else str_of_nat (n div 10) @ [digit_char (n mod 10)])"

declare str_of_nat.simps [simp del]

subsection \<open>What the host application supplies\<close>

text \<open>
  A format dictionary: \<^verbatim>\<open>format_id\<close> and \<^verbatim>\<open>url\<close> always, the other keys where the
  extractor sets them.
\<close>

record format =
  format_id :: string
  url :: string
  ext :: "string option"
  protocol :: "string option"
  quality :: "int option"

text \<open>
  A request of \<^verbatim>\<open>_download_json\<close>: the address as a base value and a path appended to
  it (the live extractor takes one base from a response), and the form or query fields
  with the values as the code passes them.
\<close>

datatype request = Request json string "(string \<times> json) list"

text \<open>
  The helpers of \<^verbatim>\<open>yt_dlp.utils\<close> and of \<^verbatim>\<open>InfoExtractor\<close> the extractors call are defined
  outside this file. They are parameters of the model, one record of functions; every
  theorem below holds for each host.
  \<^item> \<open>match_url s\<close>: what \<^verbatim>\<open>url_or_none\<close> answers for the string \<open>s\<close>;
  \<^item> \<open>int_of_str s\<close>: \<^verbatim>\<open>int(s)\<close> for a string, \<open>None\<close> where it raises \<^verbatim>\<open>ValueError\<close>;
  \<^item> \<open>date_of_str s\<close>: what \<^verbatim>\<open>unified_timestamp\<close> answers for the string \<open>s\<close>;
  \<^item> \<open>determine_ext\<close>: the extension of an address;
  \<^item> \<open>extract_m3u8_formats u video_id\<close>: \<^verbatim>\<open>_extract_m3u8_formats\<close>, which downloads the
    manifest at \<open>u\<close> and raises when that fails;
  \<^item> \<open>login_hint method\<close>: the text \<^verbatim>\<open>_login_hint(method=...)\<close> returns, or the exception
    it raises for that method;
  \<^item> \<open>update_url_query u fields\<close>: the address with the fields added to its query;
  \<^item> \<open>download_json\<close>: the answer to a request, or the error of a failed one;
  \<^item> \<open>py_str\<close>: \<^verbatim>\<open>str(v)\<close>, as an f-string prints a value.
\<close>

record host =
  match_url :: "string \<Rightarrow> string option"
  int_of_str :: "string \<Rightarrow> int option"
  date_of_str :: "string \<Rightarrow> int option"
  determine_ext :: "string \<Rightarrow> string"
  extract_m3u8_formats :: "string \<Rightarrow> string \<Rightarrow> error + format list"
  login_hint :: "string \<Rightarrow> error + string"
  update_url_query :: "json \<Rightarrow> (string \<times> json) list \<Rightarrow> error + string"
  download_json :: "request \<Rightarrow> error + json"
  py_str :: "json \<Rightarrow> string"

text \<open>
  Modelled from the spec: \<^verbatim>\<open>url_or_none\<close> (yt\_dlp.utils) is not in this file. The spec
  speaks of a "resolvable URL": only a string can be one, and which strings are is the
  host's \<open>match_url\<close>.
\<close>

fun url_or_none :: "host \<Rightarrow> json \<Rightarrow> string option" where
  "url_or_none h (JStr s) = match_url h s"
| "url_or_none h JNull = None"
| "url_or_none h (JBool b) = None"
| "url_or_none h (JInt n) = None"
| "url_or_none h (JFloat q) = None"
| "url_or_none h (JList xs) = None"
| "url_or_none h (JObj kvs) = None"

text \<open>
  Modelled from the spec: \<^verbatim>\<open>int_or_none(v, scale=...)\<close> (yt\_dlp.utils) is not in this
  file. The spec has durations "scaled from milliseconds": the value is \<^verbatim>\<open>int(v) // scale\<close>
  (Python's floor division), and \<open>None\<close> where \<^verbatim>\<open>int(v)\<close> raises. \<^verbatim>\<open>int\<close> of a float
  truncates towards zero.
\<close>

fun py_int :: "host \<Rightarrow> json \<Rightarrow> int option" where
  "py_int h (JInt n) = Some n"
| "py_int h (JBool b) = Some (if b then 1 else 0)"
| "py_int h (JFloat q) = Some (if 0 \<le> q then \<lfloor>q\<rfloor> else \<lceil>q\<rceil>)"
| "py_int h (JStr s) = int_of_str h s"
| "py_int h JNull = None"
| "py_int h (JList xs) = None"
| "py_int h (JObj kvs) = None"

definition int_or_none :: "host \<Rightarrow> int \<Rightarrow> json \<Rightarrow> int option" where
  "int_or_none h scale v = map_option (\<lambda>n. n div scale) (py_int h v)"

text \<open>
  Modelled from the spec: \<^verbatim>\<open>unified_timestamp\<close> (yt\_dlp.utils) is not in this file. It
  reads a date written as text and answers the epoch seconds; a value that is not a
  string has no date. How a string is read is the host's \<open>date_of_str\<close>.
\<close>

fun unified_timestamp :: "host \<Rightarrow> json \<Rightarrow> int option" where
  "unified_timestamp h (JStr s) = date_of_str h s"
| "unified_timestamp h JNull = None"
| "unified_timestamp h (JBool b) = None"
| "unified_timestamp h (JInt n) = None"
| "unified_timestamp h (JFloat q) = None"
| "unified_timestamp h (JList xs) = None"
| "unified_timestamp h (JObj kvs) = None"

text \<open>
  Modelled from the spec: \<^verbatim>\<open>traverse_obj\<close> (yt\_dlp.utils.traversal) is not in this file.
  The extractors use it to "inspect" a field: a key of a dict gives the value stored
  there, and a missing key or an object that is not a dict gives \<open>None\<close>, never an
  exception. \<open>only_int\<close> and \<open>only_str\<close> are the type filters \<^verbatim>\<open>{int}\<close> and \<^verbatim>\<open>{str}\<close>
  (a \<^verbatim>\<open>bool\<close> is an \<^verbatim>\<open>int\<close> in Python).
\<close>

fun traverse_key :: "json \<Rightarrow> string \<Rightarrow> json" where
  "traverse_key (JObj kvs) k = (case map_of kvs k of Some v \<Rightarrow> v | None \<Rightarrow> JNull)"
| "traverse_key JNull k = JNull"
| "traverse_key (JBool b) k = JNull"
| "traverse_key (JInt n) k = JNull"
| "traverse_key (JFloat q) k = JNull"
| "traverse_key (JStr s) k = JNull"
| "traverse_key (JList xs) k = JNull"

fun only_int :: "json \<Rightarrow> int option" where
  "only_int (JInt n) = Some n"
| "only_int (JBool b) = Some (if b then 1 else 0)"
| "only_int JNull = None"
| "only_int (JFloat q) = None"
| "only_int (JStr s) = None"
| "only_int (JList xs) = None"
| "only_int (JObj kvs) = None"

fun only_str :: "json \<Rightarrow> json" where
  "only_str (JStr s) = JStr s"
| "only_str JNull = JNull"
| "only_str (JBool b) = JNull"
| "only_str (JInt n) = JNull"
| "only_str (JFloat q) = JNull"
| "only_str (JList xs) = JNull"
| "only_str (JObj kvs) = JNull"

subsection \<open>The result of an extraction\<close>

text \<open>
  An info dictionary. A key the code leaves out, or sets to \<^verbatim>\<open>None\<close>, is \<open>JNull\<close> or
  \<open>None\<close> here (and \<open>[]\<close> for \<^verbatim>\<open>formats\<close>, which every item that can be played sets).
  \<^verbatim>\<open>id\<close>, \<^verbatim>\<open>title\<close>, \<^verbatim>\<open>uploader\<close> and \<^verbatim>\<open>uploader_id\<close> hold values taken from a response
  as they are, so their type is \<open>json\<close>.
\<close>

record info_dict =
  info_id :: json
  title :: json
  uploader :: json
  uploader_id :: json
  duration :: "int option"
  thumbnail :: "string option"
  timestamp :: "int option"
  formats :: "format list"
  is_live :: bool

text \<open>
  What \<^verbatim>\<open>AfreecaTVIE._real_extract\<close> returns: one info dictionary, or the dictionary
  \<^verbatim>\<open>playlist_result(entries, video_id, multi_video=True, **common_info)\<close> builds, its
  \<^verbatim>\<open>_type\<close> being \<^verbatim>\<open>multi_video\<close> and its \<^verbatim>\<open>entries\<close> the parts.
\<close>

datatype result = Video info_dict | Multi_video info_dict "info_dict list"

text \<open>What a run does beside returning: the warnings it reports and the manifests it
  asks the host to download (the address and the number of the part).\<close>

datatype event = Warning string | Manifest_download string nat

subsection \<open>AfreecaTVIE: the login\<close>

text \<open>The table \<^verbatim>\<open>_ERRORS\<close> of \<^verbatim>\<open>_perform_login\<close>, in the order of the source.\<close>

definition ERRORS :: "(int \<times> string) list" where
  "ERRORS =
    [(-4, ''Your account has been suspended due to a violation of our terms and policies.''),
     (-5, ''https://member.afreecatv.com/app/user_delete_progress.php''),
     (-6, ''https://login.afreecatv.com/membership/changeMember.php''),
     (-8, ''Hello! AfreecaTV here.'' @ [CHR 0x0A] @ ''The username you have entered belongs to ''
          @ [CHR 0x0A] @ '' an account that requires a legal guardian'' @ [CHR 0x27] @ ''s consent. ''
          @ [CHR 0x0A] @ ''If you wish to use our services without restriction, ''
          @ [CHR 0x0A] @ ''please make sure to go through the necessary verification process.''),
     (-9, ''https://member.afreecatv.com/app/pop_login_block.php''),
     (-11, ''https://login.afreecatv.com/afreeca/second_login.php''),
     (-12, ''https://member.afreecatv.com/app/user_security.php''),
     (0, ''The username does not exist or you have entered the wrong password.''),
     (-1, ''The username does not exist or you have entered the wrong password.''),
     (-3, ''You have entered your username/password incorrectly.''),
     (-7, ''You cannot use your Global AfreecaTV account to access Korean AfreecaTV.''),
     (-10, ''Sorry for the inconvenience. '' @ [CHR 0x0A]
          @ ''Your account has been blocked due to an unauthorized access. '' @ [CHR 0x0A]
          @ ''Please contact our Help Center for assistance.''),
     (-32008, ''You have failed to log in. Please contact our Help Center.'')]"

text \<open>\<^verbatim>\<open>_ERRORS.get(result, 'You have failed to log in.')\<close>; \<open>result\<close> is \<open>None\<close> when
  \<^verbatim>\<open>int_or_none\<close> found no integer, and \<open>None\<close> is no key of the table.\<close>

definition login_error :: "int option \<Rightarrow> string" where
  "login_error code =
     (case code of
        None \<Rightarrow> ''You have failed to log in.''
      | Some c \<Rightarrow> (case map_of ERRORS c of
                    Some msg \<Rightarrow> msg
                  | None \<Rightarrow> ''You have failed to log in.''))"

text \<open>
  \<^verbatim>\<open>_perform_login\<close>, from the answer of the login request on (\<open>response\<close>: what
  \<^verbatim>\<open>_download_json\<close> returned for the posted form). \<open>ie_name\<close> is \<^verbatim>\<open>self.IE_NAME\<close>, which
  is \<^verbatim>\<open>afreecatv\<close> for this extractor and \<^verbatim>\<open>afreecatv:live\<close> for the live one that inherits
  the method. \<open>Inr ()\<close> is the return without a value.
\<close>

definition perform_login :: "host \<Rightarrow> string \<Rightarrow> json \<Rightarrow> error + unit" where
  "perform_login h ie_name response =
     (case py_get response ''RESULT'' of
        Inl e \<Rightarrow> Inl e
      | Inr r \<Rightarrow>
          (let res = int_or_none h 1 r in
           if res \<noteq> Some 1
           then Inl (ExtractorError
                  (''Unable to login: '' @ ie_name @ '' said: '' @ login_error res) True)
           else Inr ()))"

subsection \<open>AfreecaTVIE: a video on demand\<close>

text \<open>
  Modelled from the spec: \<^verbatim>\<open>raise_login_required\<close> (InfoExtractor) is not in this file.
  For the flag "adult" the resolver "fails with an explicit age/login-required error":
  an expected \<^verbatim>\<open>ExtractorError\<close> whose message is the one passed, followed by the login
  hint for the method when there is one. The helper asks \<^verbatim>\<open>_login_hint\<close> for that hint
  before it raises its own error, so an exception of \<^verbatim>\<open>_login_hint\<close> is what comes out.
\<close>

definition raise_login_required :: "host \<Rightarrow> string \<Rightarrow> string \<Rightarrow> error" where
  "raise_login_required h msg method =
     (case login_hint h method of
        Inl e \<Rightarrow> e
      | Inr hint \<Rightarrow> ExtractorError (if hint = [] then msg else msg @ ''. '' @ hint) True)"

text \<open>The text of the warning for \<^verbatim>\<open>PARTIAL_ADULT\<close>, an f-string that ends with the login
  hint.\<close>

definition partial_adult_warning :: "string \<Rightarrow> string" where
  "partial_adult_warning hint =
     ''In accordance with local laws and regulations, underage users are ''
     @ ''restricted from watching adult content. Only content suitable for all ''
     @ ''ages will be downloaded. '' @ hint"

text \<open>The dictionary \<^verbatim>\<open>common_info\<close>: the fields of \<open>data\<close> that pass their filters.\<close>

definition common_info :: "host \<Rightarrow> json \<Rightarrow> info_dict" where
  "common_info h data =
     \<lparr> info_id = JNull,
       title = only_str (traverse_key data ''title''),
       uploader = only_str (traverse_key data ''writer_nick''),
       uploader_id = only_str (traverse_key data ''bj_id''),
       duration = int_or_none h 1000 (traverse_key data ''total_file_duration''),
       thumbnail = url_or_none h (traverse_key data ''thumb''),
       timestamp = None,
       formats = [],
       is_live = False \<rparr>"

text \<open>
  \<^verbatim>\<open>traverse_obj(data, ('files', lambda _, v: url_or_none(v['file'])))\<close>: the members of
  \<^verbatim>\<open>data['files']\<close> (the items of a list, the values of a dict) for which the test is
  true; an exception inside the test counts as false.
\<close>

fun members :: "json \<Rightarrow> json list" where
  "members (JList xs) = xs"
| "members (JObj kvs) = map snd kvs"
| "members JNull = []"
| "members (JBool b) = []"
| "members (JInt n) = []"
| "members (JFloat q) = []"
| "members (JStr s) = []"

definition has_url :: "host \<Rightarrow> json \<Rightarrow> bool" where
  "has_url h v =
     (case py_getitem v ''file'' of
        Inl e \<Rightarrow> False
      | Inr u \<Rightarrow> (case url_or_none h u of None \<Rightarrow> False | Some s \<Rightarrow> s \<noteq> []))"

definition files_with_url :: "host \<Rightarrow> json \<Rightarrow> json list" where
  "files_with_url h data = filter (has_url h) (members (traverse_key data ''files''))"

text \<open>\<^verbatim>\<open>file_url = file_element['file']\<close>, a string for every element the test let pass.\<close>

definition file_url :: "json \<Rightarrow> error + string" where
  "file_url file_element =
     (case py_getitem file_element ''file'' of
        Inl e \<Rightarrow> Inl e
      | Inr (JStr s) \<Rightarrow> Inr s
      | Inr other \<Rightarrow> Inl TypeError)"

text \<open>The formats of one file: those of its manifest, or the file itself.\<close>

definition file_formats ::
  "host \<Rightarrow> string \<Rightarrow> nat \<Rightarrow> string \<Rightarrow> (error + format list) \<times> event list" where
  "file_formats h video_id file_num u =
     (if determine_ext h u = ''m3u8''
      then (extract_m3u8_formats h u video_id, [Manifest_download u file_num])
      else (Inr [\<lparr> format_id = ''http'', url = u, ext = None, protocol = None,
                   quality = None \<rparr>], []))"

text \<open>\<^verbatim>\<open>f'{common_info.get("title") or "Untitled"} (part {file_num})'\<close>.\<close>

definition part_title :: "info_dict \<Rightarrow> nat \<Rightarrow> string" where
  "part_title ci file_num =
     (case py_or (title ci) (JStr ''Untitled'') of
        JStr t \<Rightarrow> t
      | other \<Rightarrow> ''Untitled'')
     @ '' (part '' @ str_of_nat file_num @ '')''"

text \<open>
  The dictionary appended for one file. The keys of \<^verbatim>\<open>common_info\<close> come first; \<^verbatim>\<open>id\<close>,
  \<^verbatim>\<open>title\<close> and \<^verbatim>\<open>formats\<close> are set; the file's own \<^verbatim>\<open>duration\<close> and \<^verbatim>\<open>timestamp\<close> come last
  and replace an earlier value only where their filters gave one.
\<close>

definition entry ::
  "host \<Rightarrow> string \<Rightarrow> info_dict \<Rightarrow> nat \<Rightarrow> json \<Rightarrow> format list \<Rightarrow> error + info_dict" where
  "entry h video_id ci file_num file_element fmts =
     (case py_get file_element ''file_info_key'' of
        Inl e \<Rightarrow> Inl e
      | Inr k \<Rightarrow>
          Inr (ci \<lparr> info_id := py_or k (JStr (video_id @ ''_'' @ str_of_nat file_num)),
                    title := JStr (part_title ci file_num),
                    formats := fmts,
                    duration := (case int_or_none h 1000 (traverse_key file_element ''duration'') of
                                   Some d \<Rightarrow> Some d
                                 | None \<Rightarrow> duration ci),
                    timestamp := (case unified_timestamp h (traverse_key file_element ''file_start'') of
                                    Some t \<Rightarrow> Some t
                                  | None \<Rightarrow> timestamp ci) \<rparr>))"

text \<open>The loop over the files, \<open>file_num\<close> counting from the number given. An exception
  ends it; the events up to there stay.\<close>

fun extract_entries ::
  "host \<Rightarrow> string \<Rightarrow> info_dict \<Rightarrow> nat \<Rightarrow> json list \<Rightarrow> (error + info_dict list) \<times> event list" where
  "extract_entries h video_id ci file_num [] = (Inr [], [])"
| "extract_entries h video_id ci file_num (v # vs) =
     (case file_url v of
        Inl e \<Rightarrow> (Inl e, [])
      | Inr u \<Rightarrow>
          (case file_formats h video_id file_num u of
             (Inl e, evs) \<Rightarrow> (Inl e, evs)
           | (Inr fmts, evs) \<Rightarrow>
               (case entry h video_id ci file_num v fmts of
                  Inl e \<Rightarrow> (Inl e, evs)
                | Inr en \<Rightarrow>
                    (case extract_entries h video_id ci (Suc file_num) vs of
                       (Inl e, evs') \<Rightarrow> (Inl e, evs @ evs')
                     | (Inr ens, evs') \<Rightarrow> (Inr (en # ens), evs @ evs')))))"

text \<open>
  Modelled from the spec: \<^verbatim>\<open>playlist_result\<close> (InfoExtractor) is not in this file. Several
  entries are "wrapped in a PlaylistDescriptor": the dictionary holds the keyword
  arguments (here the keys of \<^verbatim>\<open>common_info\<close>), the playlist id when it is not empty, and
  the entries.
\<close>

definition playlist_result :: "info_dict list \<Rightarrow> string \<Rightarrow> info_dict \<Rightarrow> result" where
  "playlist_result ens playlist_id kwargs =
     Multi_video (if playlist_id \<noteq> [] then kwargs \<lparr> info_id := JStr playlist_id \<rparr> else kwargs) ens"

text \<open>The end of \<^verbatim>\<open>_real_extract\<close>, after the checks: the entries, then one item or a
  playlist.\<close>

definition assemble :: "host \<Rightarrow> string \<Rightarrow> json \<Rightarrow> (error + result) \<times> event list" where
  "assemble h video_id data =
     (let ci = common_info h data in
      case extract_entries h video_id ci 1 (files_with_url h data) of
        (Inl e, evs) \<Rightarrow> (Inl e, evs)
      | (Inr ens, evs) \<Rightarrow>
          (case ens of
             [e] \<Rightarrow> (Inr (Video (e \<lparr> title := title ci \<rparr>)), evs)
           | other \<Rightarrow> (Inr (playlist_result ens video_id ci), evs)))"

text \<open>
  \<^verbatim>\<open>_real_extract\<close> from \<open>response\<close> on, the answer of the view request. Both flagged
  branches ask for the login hint of the method \<^verbatim>\<open>netrc\<close>. For \<^verbatim>\<open>PARTIAL_ADULT\<close> the hint
  is part of the f-string that is the argument of \<^verbatim>\<open>report_warning\<close>: it is computed
  before the warning is given, and an exception of \<^verbatim>\<open>_login_hint\<close> ends the run without a
  warning.
\<close>

definition extract_response :: "host \<Rightarrow> string \<Rightarrow> json \<Rightarrow> (error + result) \<times> event list" where
  "extract_response h video_id response =
     (case py_getitem response ''data'' of
        Inl e \<Rightarrow> (Inl e, [])
      | Inr data \<Rightarrow>
          (let error_code = only_int (traverse_key data ''code'') in
           if error_code = Some (- 6221)
           then (Inl (ExtractorError ''The VOD does not exist'' True), [])
           else if error_code = Some (- 6205)
           then (Inl (ExtractorError ''This VOD is private'' True), [])
           else
             (let flag = only_str (traverse_key data ''flag'') in
              if flag = JStr ''PARTIAL_ADULT''
              then (case login_hint h ''netrc'' of
                      Inl e \<Rightarrow> (Inl e, [])
                    | Inr hint \<Rightarrow>
                        (case assemble h video_id data of
                           (r, evs) \<Rightarrow> (r, Warning (partial_adult_warning hint) # evs)))
              else if flag = JStr ''ADULT''
              then (Inl (raise_login_required h
                      ''Only users older than 19 are able to watch this video'' ''netrc''), [])
              else assemble h video_id data)))"

text \<open>The request of the view, and \<^verbatim>\<open>AfreecaTVIE._real_extract\<close> for the video id matched
  in the address.\<close>

definition view_request :: "string \<Rightarrow> request" where
  "view_request video_id =
     Request (JStr ''https://api.m.afreecatv.com/station/video/a/view'') []
       [(''nTitleNo'', JStr video_id), (''nApiLevel'', JInt 10)]"

definition AfreecaTVIE_real_extract :: "host \<Rightarrow> string \<Rightarrow> (error + result) \<times> event list" where
  "AfreecaTVIE_real_extract h video_id =
     (case download_json h (view_request video_id) of
        Inl e \<Rightarrow> (Inl e, [])
      | Inr response \<Rightarrow> extract_response h video_id response)"

subsection \<open>AfreecaTVLiveIE: a live broadcast\<close>

text \<open>Sequencing of steps that may raise: the first exception ends the run.\<close>

definition bind :: "error + 'a \<Rightarrow> ('a \<Rightarrow> error + 'b) \<Rightarrow> error + 'b" where
  "bind m f = (case m of Inl e \<Rightarrow> Inl e | Inr x \<Rightarrow> f x)"

text \<open>\<^verbatim>\<open>obj.get(key, default)\<close>: the default stands in for a missing key only.\<close>

fun py_get_default :: "json \<Rightarrow> string \<Rightarrow> json \<Rightarrow> error + json" where
  "py_get_default (JObj kvs) k d = Inr (case map_of kvs k of Some v \<Rightarrow> v | None \<Rightarrow> d)"
| "py_get_default JNull k d = Inl AttributeError"
| "py_get_default (JBool b) k d = Inl AttributeError"
| "py_get_default (JInt n) k d = Inl AttributeError"
| "py_get_default (JFloat q) k d = Inl AttributeError"
| "py_get_default (JStr s) k d = Inl AttributeError"
| "py_get_default (JList xs) k d = Inl AttributeError"

text \<open>\<^verbatim>\<open>a or obj.get(key)\<close>: the lookup is made only when \<open>a\<close> is false.\<close>

definition or_get :: "json \<Rightarrow> json \<Rightarrow> string \<Rightarrow> error + json" where
  "or_get a obj k = (if truthy a then Inr a else py_get obj k)"

text \<open>\<^verbatim>\<open>_download_json(..., fatal=False)\<close>: a failed request gives \<^verbatim>\<open>False\<close> instead of an
  exception.\<close>

definition download_json_nonfatal :: "host \<Rightarrow> request \<Rightarrow> json" where
  "download_json_nonfatal h r = (case download_json h r of Inl e \<Rightarrow> JBool False | Inr v \<Rightarrow> v)"

definition LIVE_API_URL :: string where
  "LIVE_API_URL = ''https://live.afreecatv.com/afreeca/player_live_api.php''"

definition QUALITIES :: "string list" where
  "QUALITIES = [''sd'', ''hd'', ''hd2k'', ''original'']"

text \<open>
  Modelled from the spec: \<^verbatim>\<open>qualities\<close> (yt\_dlp.utils) is not in this file. "Quality
  ranking is the tier's position in the fixed list"; a name that is not in the list
  ranks \<open>-1\<close>.
\<close>

fun qualities :: "string list \<Rightarrow> string \<Rightarrow> int" where
  "qualities [] q = - 1"
| "qualities (x # xs) q =
     (if x = q then 0 else (let r = qualities xs q in if r < 0 then - 1 else r + 1))"

text \<open>The form posted for the access token of one quality.\<close>

definition aid_request :: "json \<Rightarrow> string option \<Rightarrow> string \<Rightarrow> request" where
  "aid_request broadcast_no password quality_str =
     Request (JStr LIVE_API_URL) []
       ([(''bno'', broadcast_no), (''stream_type'', JStr ''common''), (''type'', JStr ''aid''),
         (''quality'', JStr quality_str)]
        @ (case password of None \<Rightarrow> [] | Some pw \<Rightarrow> [(''pwd'', JStr pw)]))"

text \<open>\<^verbatim>\<open>traverse_obj(aid_response, ('CHANNEL', 'AID'))\<close>.\<close>

definition access_token :: "host \<Rightarrow> json \<Rightarrow> string option \<Rightarrow> string \<Rightarrow> json" where
  "access_token h broadcast_no password quality_str =
     traverse_key
       (traverse_key (download_json_nonfatal h (aid_request broadcast_no password quality_str))
          ''CHANNEL'')
       ''AID''"

text \<open>The answer of the stream assignment for one quality, \<^verbatim>\<open>or {}\<close>.\<close>

definition stream_info :: "host \<Rightarrow> json \<Rightarrow> json \<Rightarrow> string \<Rightarrow> error + json" where
  "stream_info h channel_info broadcast_no quality_str =
     bind (py_get channel_info ''RMD'') (\<lambda>rmd.
     bind (py_get_default channel_info ''CDN'' (JStr ''gcp_cdn'')) (\<lambda>cdn.
       Inr (py_or
         (download_json_nonfatal h
            (Request (py_or rmd (JStr ''https://livestream-manager.afreecatv.com''))
               ''/broad_stream_assign.html''
               [(''return_type'', cdn),
                (''broad_key'',
                 JStr (py_str h broadcast_no @ ''-common-'' @ quality_str @ ''-hls''))]))
         (JObj []))))"

text \<open>One turn of the loop over the qualities: the format the quality adds, if any.\<close>

definition quality_format ::
  "host \<Rightarrow> json \<Rightarrow> json \<Rightarrow> string option \<Rightarrow> string \<Rightarrow> error + format option" where
  "quality_format h channel_info broadcast_no password quality_str =
     (let aid = access_token h broadcast_no password quality_str in
      if \<not> truthy aid then Inr None
      else
        bind (stream_info h channel_info broadcast_no quality_str) (\<lambda>si.
        bind (py_get si ''view_url'') (\<lambda>view_url.
          if truthy view_url
          then bind (update_url_query h view_url [(''aid'', aid)]) (\<lambda>u.
                 Inr (Some \<lparr> format_id = quality_str, url = u, ext = Some ''mp4'',
                              protocol = Some ''m3u8'',
                              quality = Some (qualities QUALITIES quality_str) \<rparr>))
          else Inr None)))"

fun live_formats ::
  "host \<Rightarrow> json \<Rightarrow> json \<Rightarrow> string option \<Rightarrow> string list \<Rightarrow> error + format list" where
  "live_formats h channel_info broadcast_no password [] = Inr []"
| "live_formats h channel_info broadcast_no password (q # qs) =
     bind (quality_format h channel_info broadcast_no password q) (\<lambda>f.
     bind (live_formats h channel_info broadcast_no password qs) (\<lambda>fs.
       Inr (case f of None \<Rightarrow> fs | Some x \<Rightarrow> x # fs)))"

definition bid_request :: "string \<Rightarrow> request" where
  "bid_request url_id = Request (JStr LIVE_API_URL) [] [(''bid'', JStr url_id)]"

definition station_request :: "json \<Rightarrow> request" where
  "station_request broadcaster_id =
     Request (JStr ''https://st.afreecatv.com/api/get_station_status.php'') []
       [(''szBjId'', broadcaster_id)]"

text \<open>\<^verbatim>\<open>channel_info = info.get('CHANNEL') or {}\<close>, where \<open>info\<close> is the answer of the live
  API, \<^verbatim>\<open>or {}\<close>.\<close>

definition channel_info_of :: "host \<Rightarrow> string \<Rightarrow> error + json" where
  "channel_info_of h url_id =
     (let info = py_or (download_json_nonfatal h (bid_request url_id)) (JObj []) in
      bind (py_get info ''CHANNEL'') (\<lambda>ch. Inr (py_or ch (JObj []))))"

text \<open>\<^verbatim>\<open>station_info\<close>: the answer of the station status, \<^verbatim>\<open>or {}\<close>.\<close>

definition station_info_of :: "host \<Rightarrow> json \<Rightarrow> json" where
  "station_info_of h broadcaster_id =
     py_or (download_json_nonfatal h (station_request broadcaster_id)) (JObj [])"

text \<open>A group of the matched address, \<^verbatim>\<open>None\<close> when it took no part in the match.\<close>

definition url_group :: "string option \<Rightarrow> json" where
  "url_group g = (case g of None \<Rightarrow> JNull | Some s \<Rightarrow> JStr s)"

text \<open>
  \<^verbatim>\<open>AfreecaTVLiveIE._real_extract\<close>. \<open>url_id\<close> and \<open>url_bno\<close> are the groups \<^verbatim>\<open>id\<close> and \<^verbatim>\<open>bno\<close>
  matched in the address (the second may be missing), \<open>password\<close> the parameter
  \<^verbatim>\<open>videopassword\<close>.
\<close>

definition AfreecaTVLiveIE_real_extract ::
  "host \<Rightarrow> string \<Rightarrow> string option \<Rightarrow> string option \<Rightarrow> error + info_dict" where
  "AfreecaTVLiveIE_real_extract h url_id url_bno password =
     bind (channel_info_of h url_id) (\<lambda>channel_info.
     bind (py_get channel_info ''BJID'') (\<lambda>bjid.
     let broadcaster_id = py_or bjid (JStr url_id) in
     bind (py_get channel_info ''BNO'') (\<lambda>bno.
     let broadcast_no = py_or bno (url_group url_bno) in
     bind (py_get channel_info ''BPWD'') (\<lambda>password_protected.
     if \<not> truthy broadcast_no
     then Inl (ExtractorError
            (''Unable to extract broadcast number ('' @ py_str h broadcaster_id
             @ '' may not be live)'') True)
     else if password_protected = JStr ''Y'' \<and> password = None
     then Inl (ExtractorError
            ''This livestream is protected by a password, use the --video-password option''
            True)
     else
       bind (live_formats h channel_info broadcast_no password QUALITIES) (\<lambda>fmts.
       let station_info = station_info_of h broadcaster_id in
       bind (py_get channel_info ''TITLE'') (\<lambda>ch_title.
       bind (or_get ch_title station_info ''station_title'') (\<lambda>the_title.
       bind (py_get channel_info ''BJNICK'') (\<lambda>ch_nick.
       bind (or_get ch_nick station_info ''station_name'') (\<lambda>the_uploader.
       bind (py_get station_info ''broad_start'') (\<lambda>broad_start.
         Inr \<lparr> info_id = broadcast_no,
               title = the_title,
               uploader = the_uploader,
               uploader_id = broadcaster_id,
               duration = None,
               thumbnail = None,
               timestamp = unified_timestamp h broad_start,
               formats = fmts,
               is_live = True \<rparr>))))))))))"

subsection \<open>AfreecaTVUserIE: the videos of a user\<close>


text \<open>
  Modelled from the spec: \<^verbatim>\<open>url_result\<close> (InfoExtractor) is not in this file. "Each item
  yields a reference to the Video Resolver by constructed video URL and id": the
  address, the extractor it is meant for and the id.
\<close>

datatype url_result = Url_result string string json





text \<open>
  Modelled from the spec: \<^verbatim>\<open>OnDemandPagedList\<close> (yt\_dlp.utils) is not in this file. The
  spec describes it as "a lazy, restartable sequence" that "repeatedly requests
  fixed-size pages (page size constant) from a listing endpoint until a page returns no
  items". \<open>paged_from getpage n\<close> reads the sequence to its end from page \<open>n\<close> on: the
  items of the pages in order with the requests made, or \<open>None\<close> when the pages never
  end. The sequence keeps nothing between two readings.
\<close>

partial_function (option) paged_from ::
  "(nat \<Rightarrow> (error + 'a list) \<times> request list) \<Rightarrow> nat
   \<Rightarrow> ((error + 'a list) \<times> request list) option" where
  "paged_from getpage n =
     (case getpage n of
        (Inl e, reqs) \<Rightarrow> Some (Inl e, reqs)
      | (Inr items, reqs) \<Rightarrow>
          if items = [] then Some (Inr [], reqs)
          else Option.bind (paged_from getpage (Suc n)) (\<lambda>rest.
                 Some (case fst rest of
                         Inl e \<Rightarrow> Inl e
                       | Inr later \<Rightarrow> Inr (items @ later),
                       reqs @ snd rest)))"

declare paged_from.simps [code]

text \<open>
  What \<^verbatim>\<open>AfreecaTVUserIE._real_extract\<close> returns: the playlist id, its title and the
  lazy entries, \<^verbatim>\<open>OnDemandPagedList(functools.partial(self._fetch_page, user_id,
  user_type), self._PER_PAGE)\<close>, kept as the page function and the page size.
\<close>

record user_playlist =
  playlist_id :: string
  playlist_title :: string
  page_function :: "nat \<Rightarrow> (error + url_result list) \<times> request list"
  page_size :: int




subsection \<open>Notions the properties are stated with\<close>

text \<open>The items a result holds: the one video, or the parts of the playlist.\<close>

fun entries_of :: "result \<Rightarrow> info_dict list" where
  "entries_of (Video e) = [e]"
| "entries_of (Multi_video p ens) = ens"

text \<open>The response carries neither of the two error codes.\<close>

definition no_error_code :: "json \<Rightarrow> bool" where
  "no_error_code data =
     (only_int (traverse_key data ''code'') \<noteq> Some (- 6221)
      \<and> only_int (traverse_key data ''code'') \<noteq> Some (- 6205))"

text \<open>
  The check of the flag lets the run go on: the flag is not \<^verbatim>\<open>ADULT\<close>, and where it is
  \<^verbatim>\<open>PARTIAL_ADULT\<close> the login hint for the warning is obtained without an exception.
\<close>

definition flag_passed :: "host \<Rightarrow> json \<Rightarrow> bool" where
  "flag_passed h data =
     (only_str (traverse_key data ''flag'') \<noteq> JStr ''ADULT''
      \<and> (only_str (traverse_key data ''flag'') = JStr ''PARTIAL_ADULT''
           \<longrightarrow> (case login_hint h ''netrc'' of Inl e \<Rightarrow> False | Inr hint \<Rightarrow> True)))"

text \<open>The host expands every manifest among the files: no \<^verbatim>\<open>m3u8\<close> download raises.\<close>

definition manifest_ok :: "host \<Rightarrow> string \<Rightarrow> json \<Rightarrow> bool" where
  "manifest_ok h video_id v =
     (case file_url v of
        Inl e \<Rightarrow> True
      | Inr u \<Rightarrow> (case extract_m3u8_formats h u video_id of
                    Inl e \<Rightarrow> determine_ext h u \<noteq> ''m3u8''
                  | Inr fs \<Rightarrow> True))"

definition manifests_ok :: "host \<Rightarrow> string \<Rightarrow> json list \<Rightarrow> bool" where
  "manifests_ok h video_id vs = list_all (manifest_ok h video_id) vs"

text \<open>
  \<open>built_from h video_id ci file_num v e\<close>: the item \<open>e\<close> is the dictionary the loop appends
  for the file \<open>v\<close> as part number \<open>file_num\<close>.
\<close>

definition built_from ::
  "host \<Rightarrow> string \<Rightarrow> info_dict \<Rightarrow> nat \<Rightarrow> json \<Rightarrow> info_dict \<Rightarrow> bool" where
  "built_from h video_id ci file_num v e =
     (case file_url v of
        Inl x \<Rightarrow> False
      | Inr u \<Rightarrow> (case fst (file_formats h video_id file_num u) of
                    Inl x \<Rightarrow> False
                  | Inr fmts \<Rightarrow> entry h video_id ci file_num v fmts = Inr e))"

text \<open>A dict, the only kind of value with a \<^verbatim>\<open>get\<close> method.\<close>

fun is_dict :: "json \<Rightarrow> bool" where
  "is_dict (JObj kvs) = True"
| "is_dict JNull = False"
| "is_dict (JBool b) = False"
| "is_dict (JInt n) = False"
| "is_dict (JFloat q) = False"
| "is_dict (JStr s) = False"
| "is_dict (JList xs) = False"


subsection \<open>A host and answers to run the extractors on\<close>

text \<open>
  Modelled from the spec: \<^verbatim>\<open>_login_hint\<close> (InfoExtractor, \<^verbatim>\<open>yt_dlp/extractor/common.py\<close>) is
  not in this file, and the spec says of it only that the host has a "warning/error
  reporting sink". In yt-dlp the helper indexes a dictionary of hints by the method; the
  dictionary has the keys \<^verbatim>\<open>any\<close>, \<^verbatim>\<open>password\<close>, \<^verbatim>\<open>cookies\<close> and \<^verbatim>\<open>session_cookies\<close> (and
  \<^verbatim>\<open>None\<close>, which is not a string), so that another method raises \<^verbatim>\<open>KeyError\<close>. The
  texts are those for \<^verbatim>\<open>_NETRC_MACHINE = 'afreecatv'\<close>; nothing below depends on them, only
  on the keys. This is the hint of the host for concrete runs; the general theorems hold
  for every \<open>login_hint\<close>.
\<close>

definition cookies_hint :: string where
  "cookies_hint =
     ''See  https://github.com/yt-dlp/yt-dlp/wiki/FAQ#how-do-i-pass-cookies-to-yt-dlp  ''
     @ ''for how to manually pass cookies''"

definition password_hint :: string where
  "password_hint =
     ''--username and --password, --netrc-cmd, or --netrc (afreecatv) ''
     @ ''to provide account credentials''"

definition login_hints :: "(string \<times> string) list" where
  "login_hints =
     [(''any'', ''Use --cookies, --cookies-from-browser, '' @ password_hint @ ''. '' @ cookies_hint),
      (''password'', ''Use '' @ password_hint),
      (''cookies'', ''Use --cookies-from-browser or --cookies for the authentication. ''
                    @ cookies_hint),
      (''session_cookies'',
         ''Use --cookies for the authentication (--cookies-from-browser might not work). ''
         @ cookies_hint)]"

definition hint_of_table :: "string \<Rightarrow> error + string" where
  "hint_of_table method =
     (case map_of login_hints method of None \<Rightarrow> Inl KeyError | Some hint \<Rightarrow> Inr hint)"

text \<open>
  A host for concrete runs. Its functions agree with the helpers of yt-dlp on the values
  the runs below pass to them: an address that starts with \<^verbatim>\<open>http://\<close> or \<^verbatim>\<open>https://\<close> is a
  URL, the extension is what follows the last dot, the one date is read as UTC, a
  manifest expands to one format, the login hint is that of the table above, a query
  field is appended after \<^verbatim>\<open>?\<close>, and a string or an integer prints as itself. The answers
  to the requests are the argument.
\<close>

definition sample_host :: "(request \<Rightarrow> error + json) \<Rightarrow> host" where
  "sample_host answers =
     \<lparr> match_url = (\<lambda>s. if take 8 s = ''https://'' \<or> take 7 s = ''http://'' then Some s else None),
       int_of_str = (\<lambda>s. None),
       date_of_str = (\<lambda>s. if s = ''2024-04-06 12:25:43'' then Some 1712406343 else None),
       determine_ext = (\<lambda>s. rev (takeWhile (\<lambda>c. c \<noteq> CHR ''.'') (rev s))),
       extract_m3u8_formats = (\<lambda>u video_id.
          Inr [\<lparr> format_id = ''hls-1'', url = u, ext = Some ''mp4'',
                  protocol = Some ''m3u8_native'', quality = None \<rparr>]),
       login_hint = hint_of_table,
       update_url_query = (\<lambda>u fields. case (u, fields) of
            (JStr s, [(k, JStr v)]) \<Rightarrow> Inr (s @ ''?'' @ k @ ''='' @ v)
          | other \<Rightarrow> Inl TypeError),
       download_json = answers,
       py_str = (\<lambda>v. case v of
                        JStr s \<Rightarrow> s
                      | JInt n \<Rightarrow> (if n < 0 then ''-'' @ str_of_nat (nat (- n))
                                  else str_of_nat (nat n))
                      | other \<Rightarrow> ''?'') \<rparr>"

text \<open>The request failed.\<close>

definition unreachable :: "error + json" where
  "unreachable = Inl (ExtractorError ''Unable to download JSON metadata'' False)"

text \<open>Every view request is answered with the given \<^verbatim>\<open>data\<close>.\<close>

definition view_answers :: "json \<Rightarrow> request \<Rightarrow> error + json" where
  "view_answers data r = Inr (JObj [(''data'', data)])"

text \<open>A video in two parts, the second a manifest; one more file has no address.\<close>

definition two_part_data :: json where
  "two_part_data =
     JObj [(''title'', JStr ''A stream''),
           (''writer_nick'', JStr ''nick''),
           (''bj_id'', JStr ''orexxs''),
           (''total_file_duration'', JInt 35998246),
           (''thumb'', JStr ''https://videoimg.afreecatv.com/t.jpg''),
           (''files'', JList
              [JObj [(''file'', JStr ''https://vod.afreecatv.com/a/1.mp4''),
                     (''file_info_key'', JStr ''20240406_334AB13F_261384508_1''),
                     (''duration'', JInt 17999123),
                     (''file_start'', JStr ''2024-04-06 12:25:43'')],
               JObj [(''file'', JStr []), (''duration'', JInt 5000)],
               JObj [(''file'', JStr ''https://vod.afreecatv.com/a/2.m3u8''),
                     (''duration'', JInt 17999123),
                     (''file_start'', JInt 1712424342000)]])]"

text \<open>A video in one file, and the same without a title.\<close>

definition one_part_data :: json where
  "one_part_data =
     JObj [(''title'', JStr ''A stream''),
           (''bj_id'', JStr ''orexxs''),
           (''files'', JList
              [JObj [(''file'', JStr ''https://vod.afreecatv.com/a/1.mp4''),
                     (''duration'', JInt 17999123)]])]"

definition untitled_one_part_data :: json where
  "untitled_one_part_data =
     JObj [(''bj_id'', JStr ''orexxs''),
           (''files'', JList
              [JObj [(''file'', JStr ''https://vod.afreecatv.com/a/1.mp4'')]])]"

definition untitled_two_part_data :: json where
  "untitled_two_part_data =
     JObj [(''bj_id'', JStr ''orexxs''),
           (''files'', JList
              [JObj [(''file'', JStr ''https://vod.afreecatv.com/a/1.mp4'')],
               JObj [(''file'', JStr ''https://vod.afreecatv.com/a/2.mp4'')]])]"

text \<open>Answers with an error code; the file they name is never looked at.\<close>

definition missing_data :: json where
  "missing_data =
     JObj [(''code'', JInt (- 6221)),
           (''files'', JList [JObj [(''file'', JStr ''https://vod.afreecatv.com/a/1.m3u8'')]])]"

definition private_data :: json where
  "private_data =
     JObj [(''code'', JInt (- 6205)),
           (''files'', JList [JObj [(''file'', JStr ''https://vod.afreecatv.com/a/1.m3u8'')]])]"

text \<open>The items of an outcome; none when the run raised.\<close>

definition returned_entries :: "(error + result) \<times> event list \<Rightarrow> info_dict list" where
  "returned_entries outcome = (case fst outcome of Inl e \<Rightarrow> [] | Inr r \<Rightarrow> entries_of r)"

text \<open>
  The start time of a file as the specification words it, "scaled from milliseconds":
  the field \<^verbatim>\<open>file_start\<close> divided by 1000 like a duration.
\<close>

definition scaled_file_start :: "host \<Rightarrow> json \<Rightarrow> int option" where
  "scaled_file_start h v = int_or_none h 1000 (traverse_key v ''file_start'')"

text \<open>A video in two files, flagged \<^verbatim>\<open>PARTIAL_ADULT\<close> and flagged \<^verbatim>\<open>ADULT\<close>.\<close>

definition two_file_fields :: "(string \<times> json) list" where
  "two_file_fields =
     [(''title'', JStr ''A stream''),
      (''files'', JList
         [JObj [(''file'', JStr ''https://vod.afreecatv.com/a/1.mp4'')],
          JObj [(''file'', JStr ''https://vod.afreecatv.com/a/2.mp4'')]])]"

definition partial_adult_data :: json where
  "partial_adult_data = JObj ((''flag'', JStr ''PARTIAL_ADULT'') # two_file_fields)"

definition adult_data :: json where
  "adult_data = JObj ((''flag'', JStr ''ADULT'') # two_file_fields)"

text \<open>The broadcaster id and the broadcast number \<^verbatim>\<open>_real_extract\<close> goes on with: those of
  the channel answer, or else the groups of the address.\<close>

definition broadcaster_id_of :: "json \<Rightarrow> string \<Rightarrow> json" where
  "broadcaster_id_of channel_info url_id = py_or (traverse_key channel_info ''BJID'') (JStr url_id)"

definition broadcast_no_of :: "json \<Rightarrow> string option \<Rightarrow> json" where
  "broadcast_no_of channel_info url_bno =
     py_or (traverse_key channel_info ''BNO'') (url_group url_bno)"


text \<open>
  The probe of one quality fails softly: there is no access token, or the stream
  assignment answered with nothing or with a dict that has no \<^verbatim>\<open>view_url\<close>.
\<close>

definition probe_fails :: "host \<Rightarrow> json \<Rightarrow> json \<Rightarrow> string option \<Rightarrow> string \<Rightarrow> bool" where
  "probe_fails h channel_info broadcast_no password q =
     (\<not> truthy (access_token h broadcast_no password q)
      \<or> (case stream_info h channel_info broadcast_no q of
            Inl e \<Rightarrow> False
          | Inr si \<Rightarrow> is_dict si \<and> \<not> truthy (traverse_key si ''view_url'')))"


text \<open>Answers for a live run: the live API answers the request for the broadcaster with
  the given channel, the station status with the given station; the rest fails.\<close>

definition live_answers :: "string \<Rightarrow> json \<Rightarrow> json \<Rightarrow> json \<Rightarrow> request \<Rightarrow> error + json" where
  "live_answers url_id channel bj station r =
     (if r = bid_request url_id then Inr (JObj [(''CHANNEL'', channel)])
      else if r = station_request bj then Inr station
      else unreachable)"


text \<open>A channel on air, and the answers of a run in which the quality \<^verbatim>\<open>sd\<close> gets a token
  but no stream, \<^verbatim>\<open>hd\<close> gets both, and the other two get nothing.\<close>

definition sample_channel :: json where
  "sample_channel =
     JObj [(''BNO'', JStr ''237852185''), (''BJID'', JStr ''pyh3646''),
           (''TITLE'', JStr ''A title'')]"

definition sample_station :: json where
  "sample_station =
     JObj [(''station_title'', JStr ''A station''), (''station_name'', JStr ''A name''),
           (''broad_start'', JStr ''2024-04-06 12:25:43'')]"

definition stream_answers :: "request \<Rightarrow> error + json" where
  "stream_answers r =
     (if r = bid_request ''pyh3646'' then Inr (JObj [(''CHANNEL'', sample_channel)])
      else if r = aid_request (JStr ''237852185'') None ''sd''
      then Inr (JObj [(''CHANNEL'', JObj [(''AID'', JStr ''token-sd'')])])
      else if r = aid_request (JStr ''237852185'') None ''hd''
      then Inr (JObj [(''CHANNEL'', JObj [(''AID'', JStr ''token-hd'')])])
      else if r = Request (JStr ''https://livestream-manager.afreecatv.com'')
                    ''/broad_stream_assign.html''
                    [(''return_type'', JStr ''gcp_cdn''),
                     (''broad_key'', JStr ''237852185-common-hd-hls'')]
      then Inr (JObj [(''view_url'', JStr ''https://live-hd.afreecatv.com/playlist.m3u8'')])
      else if r = station_request (JStr ''pyh3646'') then Inr sample_station
      else unreachable)"

text \<open>A channel answer that carries a start time of its own.\<close>

definition channel_with_start :: json where
  "channel_with_start =
     JObj [(''BNO'', JStr ''237852185''), (''BJID'', JStr ''pyh3646''),
           (''TITLE'', JStr ''A title''), (''BJNICK'', JStr ''A nick''),
           (''broad_start'', JStr ''2024-04-06 12:25:43'')]"

text \<open>A channel on air that is protected by a password.\<close>

definition protected_channel :: json where
  "protected_channel =
     JObj [(''BNO'', JStr ''237852185''), (''BJID'', JStr ''pyh3646''), (''BPWD'', JStr ''Y'')]"



section \<open>Properties\<close>

subsection \<open>The loop over the files\<close>

lemma url_or_none_str: "url_or_none h j = Some s \<Longrightarrow> \<exists>u. j = JStr u \<and> match_url h u = Some s"
  by (cases j) auto

lemma has_url_file_url:
  assumes "has_url h v"
  shows "\<exists>u. file_url v = Inr u \<and> url_or_none h (JStr u) \<noteq> None"
proof -
  from assms obtain j where j: "py_getitem v ''file'' = Inr j"
    by (auto simp: has_url_def split: sum.splits)
  with assms obtain s where "url_or_none h j = Some s"
    by (auto simp: has_url_def split: option.splits)
  from url_or_none_str[OF this] obtain u where "j = JStr u" "match_url h u = Some s" by blast
  with j show ?thesis by (simp add: file_url_def)
qed

lemma has_url_py_get: "has_url h v \<Longrightarrow> \<exists>k. py_get v key = Inr k"
  by (cases v) (auto simp: has_url_def)

lemma entry_total: "has_url h v \<Longrightarrow> \<exists>e. entry h video_id ci n v fmts = Inr e"
  using has_url_py_get[of h v "''file_info_key''"] by (auto simp: entry_def)

text \<open>The loop ends without an exception when every manifest can be expanded.\<close>

lemma extract_entries_total:
  "list_all (has_url h) vs \<Longrightarrow> manifests_ok h video_id vs \<Longrightarrow>
     \<exists>ens evs. extract_entries h video_id ci n vs = (Inr ens, evs)"
proof (induction vs arbitrary: n)
  case Nil
  then show ?case by simp
next
  case (Cons v vs)
  from Cons.prems obtain u where u: "file_url v = Inr u"
    using has_url_file_url by fastforce
  from Cons.prems u obtain fmts evs where f: "file_formats h video_id n u = (Inr fmts, evs)"
    by (cases "determine_ext h u = ''m3u8''")
       (auto simp: manifests_ok_def manifest_ok_def file_formats_def split: sum.splits)
  from Cons.prems obtain e where e: "entry h video_id ci n v fmts = Inr e"
    using entry_total by fastforce
  from Cons.IH[of "Suc n"] Cons.prems obtain ens evs'
    where r: "extract_entries h video_id ci (Suc n) vs = (Inr ens, evs')"
    by (auto simp: manifests_ok_def)
  show ?case by (simp add: u f e r)
qed

text \<open>It appends one item per file, in the order of the files, numbered from \<open>n\<close> on.\<close>

lemma extract_entries_built:
  "extract_entries h video_id ci n vs = (Inr ens, evs) \<Longrightarrow>
     length ens = length vs \<and> (\<forall>k<length vs. built_from h video_id ci (n + k) (vs ! k) (ens ! k))"
proof (induction vs arbitrary: n ens evs)
  case Nil
  then show ?case by simp
next
  case (Cons v vs)
  from Cons.prems obtain u fmts evs1 e ens' evs2 where
    u: "file_url v = Inr u" and f: "file_formats h video_id n u = (Inr fmts, evs1)"
    and e: "entry h video_id ci n v fmts = Inr e"
    and r: "extract_entries h video_id ci (Suc n) vs = (Inr ens', evs2)"
    and ens: "ens = e # ens'"
    by (auto split: sum.splits prod.splits)
  from Cons.IH[OF r] have len: "length ens' = length vs"
    and ih: "\<forall>k<length vs. built_from h video_id ci (Suc n + k) (vs ! k) (ens' ! k)" by auto
  have b0: "built_from h video_id ci n v e" by (simp add: built_from_def u f e)
  show ?case
  proof (intro conjI allI impI)
    show "length ens = length (v # vs)" by (simp add: ens len)
  next
    fix k assume "k < length (v # vs)"
    then show "built_from h video_id ci (n + k) ((v # vs) ! k) (ens ! k)"
      using b0 ih ens by (cases k) auto
  qed
qed

lemma built_from_title: "built_from h video_id ci n v e \<Longrightarrow> title e = JStr (part_title ci n)"
  by (auto simp: built_from_def entry_def split: sum.splits)

lemma part_title_titled:
  "title ci = JStr t \<Longrightarrow> t \<noteq> [] \<Longrightarrow> part_title ci n = t @ '' (part '' @ str_of_nat n @ '')''"
  by (simp add: part_title_def py_or_def)

lemma files_with_url_all: "list_all (has_url h) (files_with_url h data)"
  by (simp add: files_with_url_def list_all_iff)

lemma assemble_ok:
  assumes "manifests_ok h video_id (files_with_url h data)"
  shows "\<exists>ens evs. extract_entries h video_id (common_info h data) 1 (files_with_url h data) = (Inr ens, evs)
           \<and> assemble h video_id data =
               (Inr (case ens of [e] \<Rightarrow> Video (e \<lparr> title := title (common_info h data) \<rparr>)
                     | other \<Rightarrow> playlist_result ens video_id (common_info h data)), evs)"
proof -
  from extract_entries_total[OF files_with_url_all assms] obtain ens evs where
    r: "extract_entries h video_id (common_info h data) 1 (files_with_url h data) = (Inr ens, evs)"
    by blast
  then show ?thesis by (auto simp: assemble_def Let_def split: list.splits)
qed

text \<open>Past the checks of the error code and of the flag, the outcome is that of the
  assembly.\<close>

lemma real_extract_assemble:
  assumes "download_json h (view_request video_id) = Inr response"
    and "py_getitem response ''data'' = Inr data"
    and "no_error_code data"
    and "flag_passed h data"
  shows "fst (AfreecaTVIE_real_extract h video_id) = fst (assemble h video_id data)"
  using assms
  by (auto simp: AfreecaTVIE_real_extract_def extract_response_def no_error_code_def
                 flag_passed_def Let_def
           split: prod.splits sum.splits)

lemma str_of_nat_1: "str_of_nat (Suc 0) = ''1''"
  by (simp add: str_of_nat.simps digit_char_def)

lemma str_of_nat_2: "str_of_nat (Suc (Suc 0)) = ''2''"
  by (simp add: str_of_nat.simps digit_char_def)

lemma two_part_files:
  "files_with_url (sample_host answers) two_part_data =
     [JObj [(''file'', JStr ''https://vod.afreecatv.com/a/1.mp4''),
            (''file_info_key'', JStr ''20240406_334AB13F_261384508_1''),
            (''duration'', JInt 17999123),
            (''file_start'', JStr ''2024-04-06 12:25:43'')],
      JObj [(''file'', JStr ''https://vod.afreecatv.com/a/2.m3u8''),
            (''duration'', JInt 17999123),
            (''file_start'', JInt 1712424342000)]]"
  by (simp add: files_with_url_def two_part_data_def has_url_def sample_host_def)

subsection \<open>C1: one file gives one item, several files give a playlist of parts\<close>

text \<open>
  C1. Take a view response that carries neither error code and passes the check of the
  flag (it is not flagged \<^verbatim>\<open>ADULT\<close>, and if it is flagged \<^verbatim>\<open>PARTIAL_ADULT\<close> the login hint
  of the warning is obtained without an exception), and let the host expand every
  manifest among its files. If exactly one
  member of \<^verbatim>\<open>files\<close> has a resolvable URL, the resolver returns a single info dictionary
  whose title is the title of the response as it stands, without a part suffix; apart
  from the title it is the item built from that file. If \<open>N > 1\<close> members have one, it
  returns a playlist of exactly \<open>N\<close> parts, the \<open>k\<close>-th built from the \<open>k\<close>-th such member in
  the order of the response and titled \<^verbatim>\<open><title> (part k)\<close>, \<open>k\<close> counting from 1.
\<close>

theorem C1_single_or_parts:
  assumes "download_json h (view_request video_id) = Inr response"
    and "py_getitem response ''data'' = Inr data"
    and "no_error_code data"
    and "flag_passed h data"
    and "manifests_ok h video_id (files_with_url h data)"
  shows "(length (files_with_url h data) = 1 \<longrightarrow>
           (\<exists>e. fst (AfreecaTVIE_real_extract h video_id) = Inr (Video e)
                \<and> title e = only_str (traverse_key data ''title'')
                \<and> built_from h video_id (common_info h data) 1 (files_with_url h data ! 0)
                     (e \<lparr> title := JStr (part_title (common_info h data) 1) \<rparr>)))
       \<and> (1 < length (files_with_url h data) \<longrightarrow>
           (\<exists>p ens. fst (AfreecaTVIE_real_extract h video_id) = Inr (Multi_video p ens)
                \<and> length ens = length (files_with_url h data)
                \<and> (\<forall>k<length ens.
                      built_from h video_id (common_info h data) (Suc k)
                        (files_with_url h data ! k) (ens ! k)
                      \<and> title (ens ! k) = JStr (part_title (common_info h data) (Suc k)))
                \<and> (\<forall>t. only_str (traverse_key data ''title'') = JStr t \<and> t \<noteq> [] \<longrightarrow>
                      (\<forall>k<length ens.
                         title (ens ! k) = JStr (t @ '' (part '' @ str_of_nat (Suc k) @ '')'')))))"
proof -
  let ?ci = "common_info h data"
  let ?vs = "files_with_url h data"
  from assemble_ok[OF assms(5)] obtain ens evs where
    r: "extract_entries h video_id ?ci 1 ?vs = (Inr ens, evs)"
    and a: "assemble h video_id data =
               (Inr (case ens of [e] \<Rightarrow> Video (e \<lparr> title := title ?ci \<rparr>)
                     | other \<Rightarrow> playlist_result ens video_id ?ci), evs)" by blast
  from extract_entries_built[OF r] have len: "length ens = length ?vs"
    and built: "\<forall>k<length ?vs. built_from h video_id ?ci (Suc k) (?vs ! k) (ens ! k)" by auto
  have res: "fst (AfreecaTVIE_real_extract h video_id) =
      Inr (case ens of [e] \<Rightarrow> Video (e \<lparr> title := title ?ci \<rparr>)
           | other \<Rightarrow> playlist_result ens video_id ?ci)"
    using real_extract_assemble[OF assms(1-4)] a by simp
  have tci: "title ?ci = only_str (traverse_key data ''title'')" by (simp add: common_info_def)
  show ?thesis
  proof (intro conjI impI)
    assume one: "length ?vs = 1"
    with len obtain e where e: "ens = [e]" by (cases ens) auto
    from built one e have b: "built_from h video_id ?ci 1 (?vs ! 0) e" by auto
    have "e \<lparr> title := title ?ci \<rparr> \<lparr> title := JStr (part_title ?ci 1) \<rparr> = e"
      using built_from_title[OF b] by simp
    with b res e tci show "\<exists>e. fst (AfreecaTVIE_real_extract h video_id) = Inr (Video e)
                \<and> title e = only_str (traverse_key data ''title'')
                \<and> built_from h video_id ?ci 1 (?vs ! 0) (e \<lparr> title := JStr (part_title ?ci 1) \<rparr>)"
      by auto
  next
    assume many: "1 < length ?vs"
    with len have "case ens of [e] \<Rightarrow> False | other \<Rightarrow> True" by (auto split: list.splits)
    then have pl: "fst (AfreecaTVIE_real_extract h video_id) = Inr (playlist_result ens video_id ?ci)"
      using res by (auto split: list.splits)
    have titles: "\<forall>k<length ens. title (ens ! k) = JStr (part_title ?ci (Suc k))"
      using built len built_from_title by auto
    show "\<exists>p ens. fst (AfreecaTVIE_real_extract h video_id) = Inr (Multi_video p ens)
                \<and> length ens = length ?vs
                \<and> (\<forall>k<length ens.
                      built_from h video_id ?ci (Suc k) (?vs ! k) (ens ! k)
                      \<and> title (ens ! k) = JStr (part_title ?ci (Suc k)))
                \<and> (\<forall>t. only_str (traverse_key data ''title'') = JStr t \<and> t \<noteq> [] \<longrightarrow>
                      (\<forall>k<length ens.
                         title (ens ! k) = JStr (t @ '' (part '' @ str_of_nat (Suc k) @ '')'')))"
      using pl len built titles tci part_title_titled
      by (auto simp: playlist_result_def)
  qed
qed

text \<open>The two-part video: both parts, titled in order.\<close>

theorem C1_witness:
  "download_json (sample_host (view_answers two_part_data)) (view_request ''121155561'')
     = Inr (JObj [(''data'', two_part_data)])
   \<and> py_getitem (JObj [(''data'', two_part_data)]) ''data'' = Inr two_part_data
   \<and> no_error_code two_part_data
   \<and> flag_passed (sample_host (view_answers two_part_data)) two_part_data
   \<and> manifests_ok (sample_host (view_answers two_part_data)) ''121155561''
        (files_with_url (sample_host (view_answers two_part_data)) two_part_data)
   \<and> length (files_with_url (sample_host (view_answers two_part_data)) two_part_data) = 2
   \<and> (\<exists>p ens. fst (AfreecaTVIE_real_extract (sample_host (view_answers two_part_data)) ''121155561'')
                  = Inr (Multi_video p ens)
        \<and> length ens = 2
        \<and> title (ens ! 0) = JStr ''A stream (part 1)''
        \<and> title (ens ! 1) = JStr ''A stream (part 2)'')"
proof -
  let ?h = "sample_host (view_answers two_part_data)"
  have h1: "download_json ?h (view_request ''121155561'') = Inr (JObj [(''data'', two_part_data)])"
    by (simp add: sample_host_def view_answers_def)
  have h2: "py_getitem (JObj [(''data'', two_part_data)]) ''data'' = Inr two_part_data" by simp
  have h3: "no_error_code two_part_data" by (simp add: no_error_code_def two_part_data_def)
  have h4: "flag_passed (sample_host (view_answers two_part_data)) two_part_data"
    by (simp add: flag_passed_def two_part_data_def)
  have h5: "manifests_ok ?h ''121155561'' (files_with_url ?h two_part_data)"
    by (simp add: two_part_files manifests_ok_def manifest_ok_def file_url_def)
       (simp add: sample_host_def)
  have len: "length (files_with_url ?h two_part_data) = 2" by (simp add: two_part_files)
  have t: "only_str (traverse_key two_part_data ''title'') = JStr ''A stream''"
    by (simp add: two_part_data_def)
  from C1_single_or_parts[OF h1 h2 h3 h4 h5] len t have
    "\<exists>p ens. fst (AfreecaTVIE_real_extract ?h ''121155561'') = Inr (Multi_video p ens)
        \<and> length ens = 2
        \<and> title (ens ! 0) = JStr (''A stream'' @ '' (part '' @ str_of_nat (Suc 0) @ '')'')
        \<and> title (ens ! 1) = JStr (''A stream'' @ '' (part '' @ str_of_nat (Suc 1) @ '')'')"
    by fastforce
  then have "\<exists>p ens. fst (AfreecaTVIE_real_extract ?h ''121155561'') = Inr (Multi_video p ens)
        \<and> length ens = 2
        \<and> title (ens ! 0) = JStr ''A stream (part 1)''
        \<and> title (ens ! 1) = JStr ''A stream (part 2)''"
    by (simp add: str_of_nat_1 str_of_nat_2)
  with h1 h2 h3 h4 h5 len show ?thesis by blast
qed

subsection \<open>C2: the two error codes\<close>

text \<open>
  C2. A view response whose \<^verbatim>\<open>code\<close> is the integer -6221 makes the resolver fail with
  "The VOD does not exist", and one whose \<^verbatim>\<open>code\<close> is -6205 with "This VOD is private".
  The two errors differ, both are expected errors (\<^verbatim>\<open>expected=True\<close>), and the run ends
  there: the list of events is empty, so no warning was given and no manifest asked for.
\<close>

theorem C2_error_codes:
  assumes "download_json h (view_request video_id) = Inr response"
    and "py_getitem response ''data'' = Inr data"
  shows "(traverse_key data ''code'' = JInt (- 6221) \<longrightarrow>
            AfreecaTVIE_real_extract h video_id =
              (Inl (ExtractorError ''The VOD does not exist'' True), []))
       \<and> (traverse_key data ''code'' = JInt (- 6205) \<longrightarrow>
            AfreecaTVIE_real_extract h video_id =
              (Inl (ExtractorError ''This VOD is private'' True), []))
       \<and> expected (ExtractorError ''The VOD does not exist'' True)
       \<and> expected (ExtractorError ''This VOD is private'' True)
       \<and> ExtractorError ''The VOD does not exist'' True \<noteq> ExtractorError ''This VOD is private'' True"
  using assms by (simp add: AfreecaTVIE_real_extract_def extract_response_def)

text \<open>Both codes, each with a manifest among the files that is never downloaded.\<close>

theorem C2_witness:
  "download_json (sample_host (view_answers missing_data)) (view_request ''121155561'')
     = Inr (JObj [(''data'', missing_data)])
   \<and> py_getitem (JObj [(''data'', missing_data)]) ''data'' = Inr missing_data
   \<and> traverse_key missing_data ''code'' = JInt (- 6221)
   \<and> AfreecaTVIE_real_extract (sample_host (view_answers missing_data)) ''121155561''
       = (Inl (ExtractorError ''The VOD does not exist'' True), [])
   \<and> download_json (sample_host (view_answers private_data)) (view_request ''121155561'')
     = Inr (JObj [(''data'', private_data)])
   \<and> py_getitem (JObj [(''data'', private_data)]) ''data'' = Inr private_data
   \<and> traverse_key private_data ''code'' = JInt (- 6205)
   \<and> AfreecaTVIE_real_extract (sample_host (view_answers private_data)) ''121155561''
       = (Inl (ExtractorError ''This VOD is private'' True), [])"
proof -
  have a1: "download_json (sample_host (view_answers missing_data)) (view_request ''121155561'')
     = Inr (JObj [(''data'', missing_data)])"
    by (simp add: sample_host_def view_answers_def)
  have a2: "py_getitem (JObj [(''data'', missing_data)]) ''data'' = Inr missing_data" by simp
  have a3: "traverse_key missing_data ''code'' = JInt (- 6221)" by (simp add: missing_data_def)
  have b1: "download_json (sample_host (view_answers private_data)) (view_request ''121155561'')
     = Inr (JObj [(''data'', private_data)])"
    by (simp add: sample_host_def view_answers_def)
  have b2: "py_getitem (JObj [(''data'', private_data)]) ''data'' = Inr private_data" by simp
  have b3: "traverse_key private_data ''code'' = JInt (- 6205)" by (simp add: private_data_def)
  from C2_error_codes[OF a1 a2] a3 C2_error_codes[OF b1 b2] b3 a1 a2 b1 b2
  show ?thesis by blast
qed

subsection \<open>What a run past the checks returns\<close>

lemma video_result:
  assumes "download_json h (view_request video_id) = Inr response"
    and "py_getitem response ''data'' = Inr data"
    and "no_error_code data"
    and "flag_passed h data"
    and "manifests_ok h video_id (files_with_url h data)"
  shows "\<exists>ens. length ens = length (files_with_url h data)
           \<and> (\<forall>k<length ens. built_from h video_id (common_info h data) (Suc k)
                                 (files_with_url h data ! k) (ens ! k))
           \<and> fst (AfreecaTVIE_real_extract h video_id) =
               Inr (case ens of [e] \<Rightarrow> Video (e \<lparr> title := title (common_info h data) \<rparr>)
                    | other \<Rightarrow> playlist_result ens video_id (common_info h data))"
proof -
  from assemble_ok[OF assms(5)] obtain ens evs where
    r: "extract_entries h video_id (common_info h data) 1 (files_with_url h data) = (Inr ens, evs)"
    and a: "assemble h video_id data =
               (Inr (case ens of [e] \<Rightarrow> Video (e \<lparr> title := title (common_info h data) \<rparr>)
                     | other \<Rightarrow> playlist_result ens video_id (common_info h data)), evs)" by blast
  from extract_entries_built[OF r] real_extract_assemble[OF assms(1-4)] a
  show ?thesis by auto
qed

lemma part_title_untitled:
  "title ci = JNull \<Longrightarrow> part_title ci n = ''Untitled (part '' @ str_of_nat n @ '')''"
  by (simp add: part_title_def py_or_def)

subsection \<open>C10: a missing title\<close>

text \<open>
  C10. Take a view response with no title (no \<^verbatim>\<open>title\<close> field, or one that is not a
  string) that passes the checks of the error code and of the flag, the host expanding
  every manifest. With exactly one file the resolver returns one info dictionary whose
  title is \<^verbatim>\<open>None\<close>: the word "Untitled" is not used. With several files the \<open>k\<close>-th part
  is titled \<^verbatim>\<open>Untitled (part k)\<close>.
\<close>

theorem C10_untitled:
  assumes "download_json h (view_request video_id) = Inr response"
    and "py_getitem response ''data'' = Inr data"
    and "no_error_code data"
    and "flag_passed h data"
    and "manifests_ok h video_id (files_with_url h data)"
    and "only_str (traverse_key data ''title'') = JNull"
  shows "(length (files_with_url h data) = 1 \<longrightarrow>
           (\<exists>e. fst (AfreecaTVIE_real_extract h video_id) = Inr (Video e) \<and> title e = JNull))
       \<and> (1 < length (files_with_url h data) \<longrightarrow>
           (\<exists>p ens. fst (AfreecaTVIE_real_extract h video_id) = Inr (Multi_video p ens)
                \<and> length ens = length (files_with_url h data)
                \<and> (\<forall>k<length ens.
                      title (ens ! k) = JStr (''Untitled (part '' @ str_of_nat (Suc k) @ '')''))))"
proof -
  let ?ci = "common_info h data"
  let ?vs = "files_with_url h data"
  have tci: "title ?ci = JNull" using assms(6) by (simp add: common_info_def)
  from video_result[OF assms(1-5)] obtain ens where
    len: "length ens = length ?vs"
    and built: "\<forall>k<length ens. built_from h video_id ?ci (Suc k) (?vs ! k) (ens ! k)"
    and res: "fst (AfreecaTVIE_real_extract h video_id) =
               Inr (case ens of [e] \<Rightarrow> Video (e \<lparr> title := title ?ci \<rparr>)
                    | other \<Rightarrow> playlist_result ens video_id ?ci)" by blast
  have titles: "\<forall>k<length ens. title (ens ! k) = JStr (''Untitled (part '' @ str_of_nat (Suc k) @ '')'')"
    using built built_from_title part_title_untitled[OF tci] by auto
  show ?thesis
  proof (intro conjI impI)
    assume "length ?vs = 1"
    with len obtain e where "ens = [e]" by (cases ens) auto
    with res tci show "\<exists>e. fst (AfreecaTVIE_real_extract h video_id) = Inr (Video e) \<and> title e = JNull"
      by simp
  next
    assume "1 < length ?vs"
    with len have "case ens of [e] \<Rightarrow> False | other \<Rightarrow> True" by (auto split: list.splits)
    then have "fst (AfreecaTVIE_real_extract h video_id) = Inr (playlist_result ens video_id ?ci)"
      using res by (auto split: list.splits)
    with len titles show "\<exists>p ens. fst (AfreecaTVIE_real_extract h video_id) = Inr (Multi_video p ens)
                \<and> length ens = length ?vs
                \<and> (\<forall>k<length ens.
                      title (ens ! k) = JStr (''Untitled (part '' @ str_of_nat (Suc k) @ '')''))"
      by (auto simp: playlist_result_def)
  qed
qed

lemma untitled_one_files:
  "files_with_url (sample_host answers) untitled_one_part_data =
     [JObj [(''file'', JStr ''https://vod.afreecatv.com/a/1.mp4'')]]"
  by (simp add: files_with_url_def untitled_one_part_data_def has_url_def sample_host_def)

lemma untitled_two_files:
  "files_with_url (sample_host answers) untitled_two_part_data =
     [JObj [(''file'', JStr ''https://vod.afreecatv.com/a/1.mp4'')],
      JObj [(''file'', JStr ''https://vod.afreecatv.com/a/2.mp4'')]]"
  by (simp add: files_with_url_def untitled_two_part_data_def has_url_def sample_host_def)

lemma sample_download:
  "download_json (sample_host (view_answers data)) (view_request video_id) = Inr (JObj [(''data'', data)])"
  by (simp add: sample_host_def view_answers_def)

lemma sample_manifests_ok: "manifests_ok (sample_host answers) video_id vs"
  by (induction vs) (auto simp: manifests_ok_def manifest_ok_def sample_host_def split: sum.splits)

text \<open>One file without a title, and two.\<close>

theorem C10_witness:
  "download_json (sample_host (view_answers untitled_one_part_data)) (view_request ''121155561'')
     = Inr (JObj [(''data'', untitled_one_part_data)])
   \<and> py_getitem (JObj [(''data'', untitled_one_part_data)]) ''data'' = Inr untitled_one_part_data
   \<and> no_error_code untitled_one_part_data
   \<and> flag_passed (sample_host (view_answers untitled_one_part_data)) untitled_one_part_data
   \<and> manifests_ok (sample_host (view_answers untitled_one_part_data)) ''121155561''
        (files_with_url (sample_host (view_answers untitled_one_part_data)) untitled_one_part_data)
   \<and> only_str (traverse_key untitled_one_part_data ''title'') = JNull
   \<and> length (files_with_url (sample_host (view_answers untitled_one_part_data)) untitled_one_part_data) = 1
   \<and> (\<exists>e. fst (AfreecaTVIE_real_extract (sample_host (view_answers untitled_one_part_data)) ''121155561'')
             = Inr (Video e) \<and> title e = JNull)
   \<and> length (files_with_url (sample_host (view_answers untitled_two_part_data)) untitled_two_part_data) = 2
   \<and> (\<exists>p ens. fst (AfreecaTVIE_real_extract (sample_host (view_answers untitled_two_part_data)) ''121155561'')
             = Inr (Multi_video p ens) \<and> length ens = 2
             \<and> title (ens ! 0) = JStr ''Untitled (part 1)''
             \<and> title (ens ! 1) = JStr ''Untitled (part 2)'')"
proof -
  let ?h1 = "sample_host (view_answers untitled_one_part_data)"
  let ?h2 = "sample_host (view_answers untitled_two_part_data)"
  have a2: "py_getitem (JObj [(''data'', untitled_one_part_data)]) ''data'' = Inr untitled_one_part_data"
    by simp
  have a3: "no_error_code untitled_one_part_data"
    by (simp add: no_error_code_def untitled_one_part_data_def)
  have a4: "flag_passed (sample_host (view_answers untitled_one_part_data)) untitled_one_part_data"
    by (simp add: flag_passed_def untitled_one_part_data_def)
  have a6: "only_str (traverse_key untitled_one_part_data ''title'') = JNull"
    by (simp add: untitled_one_part_data_def)
  have a7: "length (files_with_url ?h1 untitled_one_part_data) = 1" by (simp add: untitled_one_files)
  have b2: "py_getitem (JObj [(''data'', untitled_two_part_data)]) ''data'' = Inr untitled_two_part_data"
    by simp
  have b3: "no_error_code untitled_two_part_data"
    by (simp add: no_error_code_def untitled_two_part_data_def)
  have b4: "flag_passed (sample_host (view_answers untitled_two_part_data)) untitled_two_part_data"
    by (simp add: flag_passed_def untitled_two_part_data_def)
  have b6: "only_str (traverse_key untitled_two_part_data ''title'') = JNull"
    by (simp add: untitled_two_part_data_def)
  have b7: "length (files_with_url ?h2 untitled_two_part_data) = 2" by (simp add: untitled_two_files)
  from C10_untitled[OF sample_download a2 a3 a4 sample_manifests_ok a6] a7
  have one: "\<exists>e. fst (AfreecaTVIE_real_extract ?h1 ''121155561'') = Inr (Video e) \<and> title e = JNull"
    by simp
  from C10_untitled[OF sample_download b2 b3 b4 sample_manifests_ok b6] b7
  have "\<exists>p ens. fst (AfreecaTVIE_real_extract ?h2 ''121155561'') = Inr (Multi_video p ens)
           \<and> length ens = 2
           \<and> title (ens ! 0) = JStr (''Untitled (part '' @ str_of_nat (Suc 0) @ '')'')
           \<and> title (ens ! 1) = JStr (''Untitled (part '' @ str_of_nat (Suc 1) @ '')'')"
    by fastforce
  then have two: "\<exists>p ens. fst (AfreecaTVIE_real_extract ?h2 ''121155561'') = Inr (Multi_video p ens)
           \<and> length ens = 2
           \<and> title (ens ! 0) = JStr ''Untitled (part 1)''
           \<and> title (ens ! 1) = JStr ''Untitled (part 2)''"
    by (simp add: str_of_nat_1 str_of_nat_2)
  from sample_download a2 a3 a4 sample_manifests_ok a6 a7 one b7 two show ?thesis by blast
qed

subsection \<open>The fields of the items\<close>

lemma built_from_duration:
  "built_from h video_id ci n v e \<Longrightarrow>
     duration e = (case int_or_none h 1000 (traverse_key v ''duration'') of
                     Some d \<Rightarrow> Some d | None \<Rightarrow> duration ci)"
  by (auto simp: built_from_def entry_def split: sum.splits)

lemma built_from_timestamp:
  "built_from h video_id ci n v e \<Longrightarrow>
     timestamp e = (case unified_timestamp h (traverse_key v ''file_start'') of
                      Some t \<Rightarrow> Some t | None \<Rightarrow> timestamp ci)"
  by (auto simp: built_from_def entry_def split: sum.splits)

lemma entries_of_result:
  "length (entries_of (case ens of [e] \<Rightarrow> Video (e \<lparr> title := t \<rparr>)
                       | other \<Rightarrow> playlist_result ens video_id ci)) = length ens
   \<and> (\<forall>k<length ens.
         duration (entries_of (case ens of [e] \<Rightarrow> Video (e \<lparr> title := t \<rparr>)
                       | other \<Rightarrow> playlist_result ens video_id ci) ! k) = duration (ens ! k)
       \<and> timestamp (entries_of (case ens of [e] \<Rightarrow> Video (e \<lparr> title := t \<rparr>)
                       | other \<Rightarrow> playlist_result ens video_id ci) ! k) = timestamp (ens ! k)
       \<and> formats (entries_of (case ens of [e] \<Rightarrow> Video (e \<lparr> title := t \<rparr>)
                       | other \<Rightarrow> playlist_result ens video_id ci) ! k) = formats (ens ! k))"
  by (auto simp: playlist_result_def split: list.splits)

text \<open>The items of the result, one per file with an address, with the fields the
  loop gave them.\<close>

lemma video_items:
  assumes "download_json h (view_request video_id) = Inr response"
    and "py_getitem response ''data'' = Inr data"
    and "no_error_code data"
    and "flag_passed h data"
    and "manifests_ok h video_id (files_with_url h data)"
  shows "\<exists>r. fst (AfreecaTVIE_real_extract h video_id) = Inr r
           \<and> length (entries_of r) = length (files_with_url h data)
           \<and> (\<forall>k<length (files_with_url h data).
                 \<exists>e. built_from h video_id (common_info h data) (Suc k) (files_with_url h data ! k) e
                    \<and> duration (entries_of r ! k) = duration e
                    \<and> timestamp (entries_of r ! k) = timestamp e
                    \<and> formats (entries_of r ! k) = formats e)"
proof -
  let ?ci = "common_info h data"
  let ?vs = "files_with_url h data"
  from video_result[OF assms] obtain ens where
    len: "length ens = length ?vs"
    and built: "\<forall>k<length ens. built_from h video_id ?ci (Suc k) (?vs ! k) (ens ! k)"
    and res: "fst (AfreecaTVIE_real_extract h video_id) =
               Inr (case ens of [e] \<Rightarrow> Video (e \<lparr> title := title ?ci \<rparr>)
                    | other \<Rightarrow> playlist_result ens video_id ?ci)" by blast
  note eo = entries_of_result[where ens = ens and t = "title ?ci" and video_id = video_id
      and ci = "?ci"]
  show ?thesis using res len built eo by auto
qed

lemma video_times:
  assumes "download_json h (view_request video_id) = Inr response"
    and "py_getitem response ''data'' = Inr data"
    and "no_error_code data"
    and "flag_passed h data"
    and "manifests_ok h video_id (files_with_url h data)"
  shows "map duration (returned_entries (AfreecaTVIE_real_extract h video_id)) =
           map (\<lambda>v. case int_or_none h 1000 (traverse_key v ''duration'') of
                      Some d \<Rightarrow> Some d
                    | None \<Rightarrow> int_or_none h 1000 (traverse_key data ''total_file_duration''))
               (files_with_url h data)"
    and "map timestamp (returned_entries (AfreecaTVIE_real_extract h video_id)) =
           map (\<lambda>v. unified_timestamp h (traverse_key v ''file_start'')) (files_with_url h data)"
    and "length (returned_entries (AfreecaTVIE_real_extract h video_id))
           = length (files_with_url h data)"
proof -
  let ?ci = "common_info h data"
  let ?vs = "files_with_url h data"
  from video_items[OF assms] obtain r where
    r: "fst (AfreecaTVIE_real_extract h video_id) = Inr r"
    and len: "length (entries_of r) = length ?vs"
    and items: "\<forall>k<length ?vs.
                 \<exists>e. built_from h video_id ?ci (Suc k) (?vs ! k) e
                    \<and> duration (entries_of r ! k) = duration e
                    \<and> timestamp (entries_of r ! k) = timestamp e
                    \<and> formats (entries_of r ! k) = formats e" by blast
  have re: "returned_entries (AfreecaTVIE_real_extract h video_id) = entries_of r"
    by (simp add: returned_entries_def r)
  show "length (returned_entries (AfreecaTVIE_real_extract h video_id)) = length ?vs"
    by (simp add: re len)
  show "map duration (returned_entries (AfreecaTVIE_real_extract h video_id)) =
           map (\<lambda>v. case int_or_none h 1000 (traverse_key v ''duration'') of
                      Some d \<Rightarrow> Some d
                    | None \<Rightarrow> int_or_none h 1000 (traverse_key data ''total_file_duration''))
               ?vs"
    unfolding re
  proof (rule nth_equalityI)
    show "length (map duration (entries_of r)) = length (map (\<lambda>v. case int_or_none h 1000 (traverse_key v ''duration'') of
                      Some d \<Rightarrow> Some d
                    | None \<Rightarrow> int_or_none h 1000 (traverse_key data ''total_file_duration'')) ?vs)"
      by (simp add: len)
  next
    fix k assume "k < length (map duration (entries_of r))"
    then have k: "k < length ?vs" by (simp add: len)
    with items obtain e where b: "built_from h video_id ?ci (Suc k) (?vs ! k) e"
      and d: "duration (entries_of r ! k) = duration e" by blast
    have dci: "duration ?ci = int_or_none h 1000 (traverse_key data ''total_file_duration'')"
      by (simp add: common_info_def)
    from built_from_duration[OF b] d k len
    show "map duration (entries_of r) ! k = map (\<lambda>v. case int_or_none h 1000 (traverse_key v ''duration'') of
                      Some d \<Rightarrow> Some d
                    | None \<Rightarrow> int_or_none h 1000 (traverse_key data ''total_file_duration'')) ?vs ! k"
      by (simp add: dci split: option.splits)
  qed
  show "map timestamp (returned_entries (AfreecaTVIE_real_extract h video_id)) =
           map (\<lambda>v. unified_timestamp h (traverse_key v ''file_start'')) ?vs"
    unfolding re
  proof (rule nth_equalityI)
    show "length (map timestamp (entries_of r)) =
          length (map (\<lambda>v. unified_timestamp h (traverse_key v ''file_start'')) ?vs)"
      by (simp add: len)
  next
    fix k assume "k < length (map timestamp (entries_of r))"
    then have k: "k < length ?vs" by (simp add: len)
    with items obtain e where b: "built_from h video_id ?ci (Suc k) (?vs ! k) e"
      and d: "timestamp (entries_of r ! k) = timestamp e" by blast
    have tci: "timestamp ?ci = None" by (simp add: common_info_def)
    from built_from_timestamp[OF b] d k len
    show "map timestamp (entries_of r) ! k =
          map (\<lambda>v. unified_timestamp h (traverse_key v ''file_start'')) ?vs ! k"
      by (simp add: tci split: option.splits)
  qed
qed

subsection \<open>C7: the duration and the start time of a part\<close>

text \<open>
  C7, as amended. In a run that reaches the assembly (no error code, the check of the
  flag passed, every manifest expanded), the items of the result are, in order, those of
  the files with a resolvable URL. The duration of an item is the file's
  \<^verbatim>\<open>duration\<close> scaled from milliseconds, \<^verbatim>\<open>int_or_none(v, scale=1000)\<close> (an integer \<open>ms\<close>
  gives \<open>ms div 1000\<close>), and where the file has none, the scaled
  \<^verbatim>\<open>total_file_duration\<close> of the response. The timestamp of an item is
  \<^verbatim>\<open>unified_timestamp\<close> of the file's \<^verbatim>\<open>file_start\<close>: the date the host reads from a string,
  and nothing for a value that is not a string, a number of milliseconds included. The
  start time is never divided by 1000.
\<close>

theorem C7_duration_and_start:
  assumes "download_json h (view_request video_id) = Inr response"
    and "py_getitem response ''data'' = Inr data"
    and "no_error_code data"
    and "flag_passed h data"
    and "manifests_ok h video_id (files_with_url h data)"
  shows "length (returned_entries (AfreecaTVIE_real_extract h video_id))
           = length (files_with_url h data)
       \<and> map duration (returned_entries (AfreecaTVIE_real_extract h video_id)) =
           map (\<lambda>v. case int_or_none h 1000 (traverse_key v ''duration'') of
                      Some d \<Rightarrow> Some d
                    | None \<Rightarrow> int_or_none h 1000 (traverse_key data ''total_file_duration''))
               (files_with_url h data)
       \<and> map timestamp (returned_entries (AfreecaTVIE_real_extract h video_id)) =
           map (\<lambda>v. unified_timestamp h (traverse_key v ''file_start'')) (files_with_url h data)
       \<and> int_or_none h 1000 (JInt ms) = Some (ms div 1000)
       \<and> unified_timestamp h (JStr s) = date_of_str h s
       \<and> ((\<forall>t. j \<noteq> JStr t) \<longrightarrow> unified_timestamp h j = None)"
proof -
  have "int_or_none h 1000 (JInt ms) = Some (ms div 1000)" by (simp add: int_or_none_def)
  moreover have "(\<forall>t. j \<noteq> JStr t) \<longrightarrow> unified_timestamp h j = None" by (cases j) simp_all
  ultimately show ?thesis using video_times[OF assms] by simp
qed

text \<open>
  C7 as stated, with the start time scaled from milliseconds like the duration, fails
  on the two-part video. Its first file starts at the text \<^verbatim>\<open>2024-04-06 12:25:43\<close>: the
  item gets the epoch seconds of that date, where scaling gives nothing. Its second file
  starts at the number 1712424342000: the item gets no timestamp, where scaling gives
  1712424342.
\<close>

theorem C7_counterexample:
  "map timestamp (returned_entries
      (AfreecaTVIE_real_extract (sample_host (view_answers two_part_data)) ''121155561''))
     = [Some 1712406343, None]
   \<and> map (scaled_file_start (sample_host (view_answers two_part_data)))
       (files_with_url (sample_host (view_answers two_part_data)) two_part_data)
     = [None, Some 1712424342]"
proof -
  let ?h = "sample_host (view_answers two_part_data)"
  have h2: "py_getitem (JObj [(''data'', two_part_data)]) ''data'' = Inr two_part_data" by simp
  have h3: "no_error_code two_part_data" by (simp add: no_error_code_def two_part_data_def)
  have h4: "flag_passed (sample_host (view_answers two_part_data)) two_part_data"
    by (simp add: flag_passed_def two_part_data_def)
  have "map timestamp (returned_entries (AfreecaTVIE_real_extract ?h ''121155561''))
          = [Some 1712406343, None]"
    unfolding video_times(2)[OF sample_download h2 h3 h4 sample_manifests_ok] two_part_files
    by (simp add: sample_host_def)
  moreover have "map (scaled_file_start ?h) (files_with_url ?h two_part_data)
     = [None, Some 1712424342]"
    unfolding two_part_files by (simp add: scaled_file_start_def int_or_none_def sample_host_def)
  ultimately show ?thesis by simp
qed

text \<open>The two-part video: both durations scaled, the timestamps as above; the number of
  milliseconds of its second file is not a string and gives no timestamp.\<close>

theorem C7_witness:
  "download_json (sample_host (view_answers two_part_data)) (view_request ''121155561'')
     = Inr (JObj [(''data'', two_part_data)])
   \<and> py_getitem (JObj [(''data'', two_part_data)]) ''data'' = Inr two_part_data
   \<and> no_error_code two_part_data
   \<and> flag_passed (sample_host (view_answers two_part_data)) two_part_data
   \<and> manifests_ok (sample_host (view_answers two_part_data)) ''121155561''
        (files_with_url (sample_host (view_answers two_part_data)) two_part_data)
   \<and> map duration (returned_entries
        (AfreecaTVIE_real_extract (sample_host (view_answers two_part_data)) ''121155561''))
       = [Some 17999, Some 17999]
   \<and> map timestamp (returned_entries
        (AfreecaTVIE_real_extract (sample_host (view_answers two_part_data)) ''121155561''))
       = [Some 1712406343, None]
   \<and> unified_timestamp (sample_host (view_answers two_part_data)) (JInt 1712424342000) = None"
proof -
  let ?h = "sample_host (view_answers two_part_data)"
  have h2: "py_getitem (JObj [(''data'', two_part_data)]) ''data'' = Inr two_part_data" by simp
  have h3: "no_error_code two_part_data" by (simp add: no_error_code_def two_part_data_def)
  have h4: "flag_passed (sample_host (view_answers two_part_data)) two_part_data"
    by (simp add: flag_passed_def two_part_data_def)
  note c = C7_duration_and_start[where j = "JInt 1712424342000",
      OF sample_download h2 h3 h4 sample_manifests_ok]
  have n: "unified_timestamp ?h (JInt 1712424342000) = None" using c by simp
  have d: "map duration (returned_entries (AfreecaTVIE_real_extract ?h ''121155561''))
       = [Some 17999, Some 17999]"
    using c unfolding two_part_files by (simp add: int_or_none_def)
  have t: "map timestamp (returned_entries (AfreecaTVIE_real_extract ?h ''121155561''))
       = [Some 1712406343, None]"
    using c unfolding two_part_files by (simp add: sample_host_def)
  from sample_download h2 h3 h4 sample_manifests_ok d t n show ?thesis by blast
qed

subsection \<open>C4: the outcome of the login\<close>

lemma ERRORS_distinct: "distinct (map fst ERRORS)"
  by (simp add: ERRORS_def)

lemma ERRORS_no_success: "1 \<notin> fst ` set ERRORS"
  by (simp add: ERRORS_def)

lemma login_error_listed: "(c, msg) \<in> set ERRORS \<Longrightarrow> login_error (Some c) = msg"
  using ERRORS_distinct by (simp add: login_error_def)

lemma login_error_unlisted:
  "c \<notin> fst ` set ERRORS \<Longrightarrow> login_error (Some c) = ''You have failed to log in.''"
proof -
  assume "c \<notin> fst ` set ERRORS"
  then have "map_of ERRORS c = None" by (simp add: map_of_eq_None_iff)
  then show ?thesis by (simp add: login_error_def)
qed

text \<open>
  C4. Let the login response be a dict and \<open>r\<close> its \<^verbatim>\<open>RESULT\<close> (\<^verbatim>\<open>None\<close> when missing), read
  as an integer by \<^verbatim>\<open>int_or_none\<close>; an integer is read as itself. When the code is 1 the
  method returns nothing and raises nothing. Every other outcome raises an expected
  \<^verbatim>\<open>ExtractorError\<close> "Unable to login: <IE_NAME> said: <message>": for a code listed in
  the table the message is the table's (each code is listed once, and 1 is not listed),
  for a code that is not listed, and for a result that is no integer at all, it is
  "You have failed to log in.".
\<close>

theorem C4_login_outcomes:
  assumes "py_get response ''RESULT'' = Inr r"
  shows "(int_or_none h 1 r = Some 1 \<longrightarrow> perform_login h ie_name response = Inr ())
       \<and> (\<forall>c msg. int_or_none h 1 r = Some c \<and> c \<noteq> 1 \<and> (c, msg) \<in> set ERRORS \<longrightarrow>
            perform_login h ie_name response =
              Inl (ExtractorError (''Unable to login: '' @ ie_name @ '' said: '' @ msg) True))
       \<and> (\<forall>c. int_or_none h 1 r = Some c \<and> c \<noteq> 1 \<and> c \<notin> fst ` set ERRORS \<longrightarrow>
            perform_login h ie_name response =
              Inl (ExtractorError (''Unable to login: '' @ ie_name @ '' said: ''
                                      @ ''You have failed to log in.'') True))
       \<and> (int_or_none h 1 r = None \<longrightarrow>
            perform_login h ie_name response =
              Inl (ExtractorError (''Unable to login: '' @ ie_name @ '' said: ''
                                      @ ''You have failed to log in.'') True))
       \<and> int_or_none h 1 (JInt n) = Some n
       \<and> 1 \<notin> fst ` set ERRORS"
proof -
  have a: "int_or_none h 1 r = Some 1 \<longrightarrow> perform_login h ie_name response = Inr ()"
    using assms by (simp add: perform_login_def)
  have b: "\<forall>c msg. int_or_none h 1 r = Some c \<and> c \<noteq> 1 \<and> (c, msg) \<in> set ERRORS \<longrightarrow>
            perform_login h ie_name response =
              Inl (ExtractorError (''Unable to login: '' @ ie_name @ '' said: '' @ msg) True)"
    using assms login_error_listed by (simp add: perform_login_def)
  have c: "\<forall>c. int_or_none h 1 r = Some c \<and> c \<noteq> 1 \<and> c \<notin> fst ` set ERRORS \<longrightarrow>
            perform_login h ie_name response =
              Inl (ExtractorError (''Unable to login: '' @ ie_name @ '' said: ''
                                      @ ''You have failed to log in.'') True)"
    using assms login_error_unlisted by (simp add: perform_login_def)
  have d: "int_or_none h 1 r = None \<longrightarrow>
            perform_login h ie_name response =
              Inl (ExtractorError (''Unable to login: '' @ ie_name @ '' said: ''
                                      @ ''You have failed to log in.'') True)"
    using assms by (simp add: perform_login_def login_error_def)
  have e: "int_or_none h 1 (JInt n) = Some n" by (simp add: int_or_none_def)
  from a b c d e ERRORS_no_success show ?thesis by blast
qed

text \<open>The codes 1, -7 (listed), -99 (not listed), and a response without a code.\<close>

theorem C4_witness:
  "py_get (JObj [(''RESULT'', JInt 1)]) ''RESULT'' = Inr (JInt 1)
   \<and> perform_login (sample_host (\<lambda>r. unreachable)) ''afreecatv'' (JObj [(''RESULT'', JInt 1)]) = Inr ()
   \<and> py_get (JObj [(''RESULT'', JInt (- 7))]) ''RESULT'' = Inr (JInt (- 7))
   \<and> perform_login (sample_host (\<lambda>r. unreachable)) ''afreecatv'' (JObj [(''RESULT'', JInt (- 7))])
       = Inl (ExtractorError (''Unable to login: afreecatv said: ''
               @ ''You cannot use your Global AfreecaTV account to access Korean AfreecaTV.'') True)
   \<and> py_get (JObj [(''RESULT'', JInt (- 99))]) ''RESULT'' = Inr (JInt (- 99))
   \<and> perform_login (sample_host (\<lambda>r. unreachable)) ''afreecatv'' (JObj [(''RESULT'', JInt (- 99))])
       = Inl (ExtractorError ''Unable to login: afreecatv said: You have failed to log in.'' True)
   \<and> py_get (JObj []) ''RESULT'' = Inr JNull
   \<and> perform_login (sample_host (\<lambda>r. unreachable)) ''afreecatv'' (JObj [])
       = Inl (ExtractorError ''Unable to login: afreecatv said: You have failed to log in.'' True)"
proof -
  let ?h = "sample_host (\<lambda>r. unreachable)"
  have g1: "py_get (JObj [(''RESULT'', JInt 1)]) ''RESULT'' = Inr (JInt 1)" by simp
  have g2: "py_get (JObj [(''RESULT'', JInt (- 7))]) ''RESULT'' = Inr (JInt (- 7))" by simp
  have g3: "py_get (JObj [(''RESULT'', JInt (- 99))]) ''RESULT'' = Inr (JInt (- 99))" by simp
  have g4: "py_get (JObj []) ''RESULT'' = Inr JNull" by simp
  have i: "\<And>n. int_or_none ?h 1 (JInt n) = Some n" by (simp add: int_or_none_def)
  have n: "int_or_none ?h 1 JNull = None" by (simp add: int_or_none_def)
  have m7: "(- 7, ''You cannot use your Global AfreecaTV account to access Korean AfreecaTV.'')
             \<in> set ERRORS" by (simp add: ERRORS_def)
  have m99: "(- 99) \<notin> fst ` set ERRORS" by (simp add: ERRORS_def)
  have r1: "perform_login ?h ''afreecatv'' (JObj [(''RESULT'', JInt 1)]) = Inr ()"
    using C4_login_outcomes[OF g1, of ?h "''afreecatv''"] i by simp
  have r2: "perform_login ?h ''afreecatv'' (JObj [(''RESULT'', JInt (- 7))])
       = Inl (ExtractorError (''Unable to login: afreecatv said: ''
               @ ''You cannot use your Global AfreecaTV account to access Korean AfreecaTV.'') True)"
    using C4_login_outcomes[OF g2, of ?h "''afreecatv''"] i m7 by simp
  have r3: "perform_login ?h ''afreecatv'' (JObj [(''RESULT'', JInt (- 99))])
       = Inl (ExtractorError ''Unable to login: afreecatv said: You have failed to log in.'' True)"
    using C4_login_outcomes[OF g3, of ?h "''afreecatv''"] i m99 by simp
  have r4: "perform_login ?h ''afreecatv'' (JObj [])
       = Inl (ExtractorError ''Unable to login: afreecatv said: You have failed to log in.'' True)"
    using C4_login_outcomes[OF g4, of ?h "''afreecatv''"] n by simp
  from g1 g2 g3 g4 r1 r2 r3 r4 show ?thesis by blast
qed

subsection \<open>C3: the flags ADULT and PARTIAL\_ADULT\<close>


text \<open>The table of hints has no entry for the method \<^verbatim>\<open>netrc\<close>.\<close>

lemma netrc_not_a_hint: "hint_of_table ''netrc'' = Inl KeyError"
  by (simp add: hint_of_table_def login_hints_def)

text \<open>
  C3. Take a view response that carries neither error code and is flagged \<^verbatim>\<open>ADULT\<close> or
  \<^verbatim>\<open>PARTIAL_ADULT\<close>. Either branch of \<^verbatim>\<open>_real_extract\<close> first asks the host for the login
  hint of the method \<^verbatim>\<open>netrc\<close>.
  \<^item> When that call raises, the run ends with its exception under either flag: no warning
    is given, no login-required error is raised and nothing is returned.
  \<^item> When the hint is returned, the flag \<^verbatim>\<open>ADULT\<close> fails with the login-required error, an
    expected \<^verbatim>\<open>ExtractorError\<close> whose message ends with the hint, and the flag
    \<^verbatim>\<open>PARTIAL_ADULT\<close> gives the warning first and then does what it does for the response
    without a flag.

  The second case is what C3 describes and what the two branches are written to do. With
  the hints of yt-dlp the first case is the one that happens, since \<^verbatim>\<open>netrc\<close> is not among
  the methods that have a hint: both flags end in \<^verbatim>\<open>KeyError\<close>.
\<close>

theorem C3_adult_flags:
  assumes "download_json h (view_request video_id) = Inr response"
    and "py_getitem response ''data'' = Inr data"
    and "no_error_code data"
    and "only_str (traverse_key data ''flag'') = JStr ''ADULT''
         \<or> only_str (traverse_key data ''flag'') = JStr ''PARTIAL_ADULT''"
  shows "(\<forall>e. login_hint h ''netrc'' = Inl e \<longrightarrow>
            AfreecaTVIE_real_extract h video_id = (Inl e, []))
       \<and> (\<forall>hint. login_hint h ''netrc'' = Inr hint \<longrightarrow>
            (only_str (traverse_key data ''flag'') = JStr ''ADULT'' \<longrightarrow>
               AfreecaTVIE_real_extract h video_id =
                 (Inl (ExtractorError
                         (if hint = []
                          then ''Only users older than 19 are able to watch this video''
                          else ''Only users older than 19 are able to watch this video''
                               @ ''. '' @ hint) True), []))
          \<and> (only_str (traverse_key data ''flag'') = JStr ''PARTIAL_ADULT'' \<longrightarrow>
               AfreecaTVIE_real_extract h video_id =
                 (fst (assemble h video_id data),
                  Warning (partial_adult_warning hint) # snd (assemble h video_id data))))"
proof -
  have run: "AfreecaTVIE_real_extract h video_id = extract_response h video_id response"
    using assms(1) by (simp add: AfreecaTVIE_real_extract_def)
  from assms(3) have c1: "only_int (traverse_key data ''code'') \<noteq> Some (- 6221)"
    and c2: "only_int (traverse_key data ''code'') \<noteq> Some (- 6205)"
    by (simp_all add: no_error_code_def)
  from assms(4) show ?thesis
  proof
    assume f: "only_str (traverse_key data ''flag'') = JStr ''ADULT''"
    show ?thesis
      unfolding run
      by (simp add: extract_response_def assms(2) c1 c2 f raise_login_required_def)
  next
    assume f: "only_str (traverse_key data ''flag'') = JStr ''PARTIAL_ADULT''"
    show ?thesis
      unfolding run
      by (simp add: extract_response_def assms(2) c1 c2 f split: prod.splits)
  qed
qed

text \<open>
  The two-file video flagged \<^verbatim>\<open>ADULT\<close>, and flagged \<^verbatim>\<open>PARTIAL_ADULT\<close>, on the host whose
  hints are those of the table: both runs end in \<^verbatim>\<open>KeyError\<close>, without a warning.
\<close>

theorem C3_witness:
  "download_json (sample_host (view_answers adult_data)) (view_request ''119630771'')
     = Inr (JObj [(''data'', adult_data)])
   \<and> py_getitem (JObj [(''data'', adult_data)]) ''data'' = Inr adult_data
   \<and> no_error_code adult_data
   \<and> only_str (traverse_key adult_data ''flag'') = JStr ''ADULT''
   \<and> login_hint (sample_host (view_answers adult_data)) ''netrc'' = Inl KeyError
   \<and> AfreecaTVIE_real_extract (sample_host (view_answers adult_data)) ''119630771''
       = (Inl KeyError, [])
   \<and> download_json (sample_host (view_answers partial_adult_data)) (view_request ''119630771'')
     = Inr (JObj [(''data'', partial_adult_data)])
   \<and> py_getitem (JObj [(''data'', partial_adult_data)]) ''data'' = Inr partial_adult_data
   \<and> no_error_code partial_adult_data
   \<and> only_str (traverse_key partial_adult_data ''flag'') = JStr ''PARTIAL_ADULT''
   \<and> login_hint (sample_host (view_answers partial_adult_data)) ''netrc'' = Inl KeyError
   \<and> AfreecaTVIE_real_extract (sample_host (view_answers partial_adult_data)) ''119630771''
       = (Inl KeyError, [])"
proof -
  let ?ha = "sample_host (view_answers adult_data)"
  let ?hp = "sample_host (view_answers partial_adult_data)"
  have a2: "py_getitem (JObj [(''data'', adult_data)]) ''data'' = Inr adult_data" by simp
  have a3: "no_error_code adult_data"
    by (simp add: no_error_code_def adult_data_def two_file_fields_def)
  have a4: "only_str (traverse_key adult_data ''flag'') = JStr ''ADULT''"
    by (simp add: adult_data_def)
  have a5: "login_hint ?ha ''netrc'' = Inl KeyError"
    by (simp add: sample_host_def netrc_not_a_hint)
  have p2: "py_getitem (JObj [(''data'', partial_adult_data)]) ''data'' = Inr partial_adult_data"
    by simp
  have p3: "no_error_code partial_adult_data"
    by (simp add: no_error_code_def partial_adult_data_def two_file_fields_def)
  have p4: "only_str (traverse_key partial_adult_data ''flag'') = JStr ''PARTIAL_ADULT''"
    by (simp add: partial_adult_data_def)
  have p5: "login_hint ?hp ''netrc'' = Inl KeyError"
    by (simp add: sample_host_def netrc_not_a_hint)
  have ra: "AfreecaTVIE_real_extract ?ha ''119630771'' = (Inl KeyError, [])"
    using C3_adult_flags[OF sample_download a2 a3 disjI1[OF a4]] a5 by blast
  have rp: "AfreecaTVIE_real_extract ?hp ''119630771'' = (Inl KeyError, [])"
    using C3_adult_flags[OF sample_download p2 p3 disjI2[OF p4]] p5 by blast
  show ?thesis
    by (intro conjI) (rule sample_download a2 a3 a4 a5 ra p2 p3 p4 p5 rp)+
qed

subsection \<open>The live extractor\<close>

lemma py_get_dict: "is_dict j \<Longrightarrow> py_get j k = Inr (traverse_key j k)"
  by (cases j) auto

lemma py_get_Inr: "py_get j k = Inr v \<Longrightarrow> is_dict j \<and> v = traverse_key j k"
  by (cases j) auto


lemma quality_format_fails:
  assumes "probe_fails h channel_info broadcast_no password q"
  shows "quality_format h channel_info broadcast_no password q = Inr None"
proof (cases "truthy (access_token h broadcast_no password q)")
  case False
  then show ?thesis by (simp add: quality_format_def)
next
  case True
  with assms obtain si where si: "stream_info h channel_info broadcast_no q = Inr si"
    and d: "is_dict si" and nv: "\<not> truthy (traverse_key si ''view_url'')"
    by (auto simp: probe_fails_def split: sum.splits)
  with True show ?thesis
    by (simp add: quality_format_def bind_def py_get_dict)
qed

lemma live_formats_fail:
  "\<forall>q\<in>set qs. probe_fails h channel_info broadcast_no password q \<Longrightarrow>
     live_formats h channel_info broadcast_no password qs = Inr []"
  by (induction qs) (simp_all add: quality_format_fails bind_def)


text \<open>\<^verbatim>\<open>_real_extract\<close> once the channel answer is a dict.\<close>

lemma live_unfold:
  assumes "channel_info_of h url_id = Inr channel_info" and "is_dict channel_info"
  shows "AfreecaTVLiveIE_real_extract h url_id url_bno password =
     (if \<not> truthy (broadcast_no_of channel_info url_bno)
      then Inl (ExtractorError
             (''Unable to extract broadcast number (''
              @ py_str h (broadcaster_id_of channel_info url_id)
              @ '' may not be live)'') True)
      else if traverse_key channel_info ''BPWD'' = JStr ''Y'' \<and> password = None
      then Inl (ExtractorError
             ''This livestream is protected by a password, use the --video-password option''
             True)
      else
        bind (live_formats h channel_info (broadcast_no_of channel_info url_bno) password
                QUALITIES) (\<lambda>fmts.
        bind (or_get (traverse_key channel_info ''TITLE'')
                (station_info_of h (broadcaster_id_of channel_info url_id)) ''station_title'')
          (\<lambda>the_title.
        bind (or_get (traverse_key channel_info ''BJNICK'')
                (station_info_of h (broadcaster_id_of channel_info url_id)) ''station_name'')
          (\<lambda>the_uploader.
        bind (py_get (station_info_of h (broadcaster_id_of channel_info url_id)) ''broad_start'')
          (\<lambda>broad_start.
          Inr \<lparr> info_id = broadcast_no_of channel_info url_bno,
                title = the_title,
                uploader = the_uploader,
                uploader_id = broadcaster_id_of channel_info url_id,
                duration = None,
                thumbnail = None,
                timestamp = unified_timestamp h broad_start,
                formats = fmts,
                is_live = True \<rparr>)))))"
  using assms
  by (simp add: AfreecaTVLiveIE_real_extract_def bind_def py_get_dict Let_def
        broadcast_no_of_def broadcaster_id_of_def)

lemma or_get_dict: "is_dict st \<Longrightarrow> or_get a st k = Inr (py_or a (traverse_key st k))"
  by (simp add: or_get_def py_or_def py_get_dict)

text \<open>What a live run returns.\<close>

lemma live_Inr:
  assumes "channel_info_of h url_id = Inr channel_info" and "is_dict channel_info"
    and "AfreecaTVLiveIE_real_extract h url_id url_bno password = Inr d"
  shows "truthy (broadcast_no_of channel_info url_bno)
       \<and> is_dict (station_info_of h (broadcaster_id_of channel_info url_id))
       \<and> live_formats h channel_info (broadcast_no_of channel_info url_bno) password QUALITIES
           = Inr (formats d)
       \<and> info_id d = broadcast_no_of channel_info url_bno
       \<and> uploader_id d = broadcaster_id_of channel_info url_id
       \<and> title d = py_or (traverse_key channel_info ''TITLE'')
                     (traverse_key (station_info_of h (broadcaster_id_of channel_info url_id))
                        ''station_title'')
       \<and> uploader d = py_or (traverse_key channel_info ''BJNICK'')
                     (traverse_key (station_info_of h (broadcaster_id_of channel_info url_id))
                        ''station_name'')
       \<and> timestamp d = unified_timestamp h
                     (traverse_key (station_info_of h (broadcaster_id_of channel_info url_id))
                        ''broad_start'')
       \<and> is_live d"
proof -
  let ?st = "station_info_of h (broadcaster_id_of channel_info url_id)"
  let ?bno = "broadcast_no_of channel_info url_bno"
  note u = live_unfold[OF assms(1,2), of url_bno password]
  from assms(3) u have bno: "truthy ?bno" by (auto split: if_splits)
  from assms(3) u bno obtain fmts where
    fm: "live_formats h channel_info ?bno password QUALITIES = Inr fmts"
    by (auto simp: bind_def split: if_splits sum.splits)
  from assms(3) u bno fm obtain bs where bs: "py_get ?st ''broad_start'' = Inr bs"
    by (auto simp: bind_def split: if_splits sum.splits)
  from py_get_Inr[OF bs] have st: "is_dict ?st" and bsv: "bs = traverse_key ?st ''broad_start''"
    by simp_all
  from assms(3) u bno fm st show ?thesis
    by (auto simp: bind_def or_get_dict py_get_dict split: if_splits)
qed

lemma live_total:
  assumes "channel_info_of h url_id = Inr channel_info" and "is_dict channel_info"
    and "truthy (broadcast_no_of channel_info url_bno)"
    and "\<not> (traverse_key channel_info ''BPWD'' = JStr ''Y'' \<and> password = None)"
    and "live_formats h channel_info (broadcast_no_of channel_info url_bno) password QUALITIES
           = Inr fmts"
    and "is_dict (station_info_of h (broadcaster_id_of channel_info url_id))"
  shows "\<exists>d. AfreecaTVLiveIE_real_extract h url_id url_bno password = Inr d \<and> formats d = fmts"
  using assms live_unfold[OF assms(1,2), of url_bno password]
  by (auto simp: bind_def or_get_dict py_get_dict)


subsection \<open>C5: no quality yields a stream\<close>

text \<open>
  C5, as amended. Let the channel answer be a dict. If no broadcast number is found,
  neither in the answer nor in the address, the run fails with an expected error. If one
  is found while the channel is protected by a password and none was given, the run
  fails with an expected error as well, before any probe. If one is found, that gate is
  passed, the station status answers with nothing or a dict, and the probe of every
  quality fails softly (no access token, or no \<^verbatim>\<open>view_url\<close>), the run returns a live info
  dictionary for the broadcast number with an empty list of formats.
\<close>

theorem C5_no_stream:
  assumes "channel_info_of h url_id = Inr channel_info" and "is_dict channel_info"
  shows "(\<not> truthy (broadcast_no_of channel_info url_bno) \<longrightarrow>
           AfreecaTVLiveIE_real_extract h url_id url_bno password =
             Inl (ExtractorError
                   (''Unable to extract broadcast number (''
                    @ py_str h (broadcaster_id_of channel_info url_id)
                    @ '' may not be live)'') True))
       \<and> (truthy (broadcast_no_of channel_info url_bno)
            \<and> traverse_key channel_info ''BPWD'' = JStr ''Y'' \<and> password = None \<longrightarrow>
           AfreecaTVLiveIE_real_extract h url_id url_bno password =
             Inl (ExtractorError
                   ''This livestream is protected by a password, use the --video-password option''
                   True))
       \<and> (truthy (broadcast_no_of channel_info url_bno)
            \<and> \<not> (traverse_key channel_info ''BPWD'' = JStr ''Y'' \<and> password = None)
            \<and> is_dict (station_info_of h (broadcaster_id_of channel_info url_id))
            \<and> (\<forall>q\<in>set QUALITIES.
                  probe_fails h channel_info (broadcast_no_of channel_info url_bno) password q)
           \<longrightarrow> (\<exists>d. AfreecaTVLiveIE_real_extract h url_id url_bno password = Inr d
                    \<and> formats d = []
                    \<and> info_id d = broadcast_no_of channel_info url_bno
                    \<and> is_live d))"
proof (intro conjI impI)
  assume "\<not> truthy (broadcast_no_of channel_info url_bno)"
  then show "AfreecaTVLiveIE_real_extract h url_id url_bno password =
             Inl (ExtractorError
                   (''Unable to extract broadcast number (''
                    @ py_str h (broadcaster_id_of channel_info url_id)
                    @ '' may not be live)'') True)"
    by (simp add: live_unfold[OF assms])
next
  assume "truthy (broadcast_no_of channel_info url_bno)
            \<and> traverse_key channel_info ''BPWD'' = JStr ''Y'' \<and> password = None"
  then show "AfreecaTVLiveIE_real_extract h url_id url_bno password =
             Inl (ExtractorError
                   ''This livestream is protected by a password, use the --video-password option''
                   True)"
    by (simp add: live_unfold[OF assms])
next
  assume a: "truthy (broadcast_no_of channel_info url_bno)
            \<and> \<not> (traverse_key channel_info ''BPWD'' = JStr ''Y'' \<and> password = None)
            \<and> is_dict (station_info_of h (broadcaster_id_of channel_info url_id))
            \<and> (\<forall>q\<in>set QUALITIES.
                  probe_fails h channel_info (broadcast_no_of channel_info url_bno) password q)"
  then have fm: "live_formats h channel_info (broadcast_no_of channel_info url_bno) password
                   QUALITIES = Inr []"
    using live_formats_fail by blast
  from a have a1: "truthy (broadcast_no_of channel_info url_bno)"
    and a2: "\<not> (traverse_key channel_info ''BPWD'' = JStr ''Y'' \<and> password = None)"
    and a3: "is_dict (station_info_of h (broadcaster_id_of channel_info url_id))" by simp_all
  from live_total[OF assms a1 a2 fm a3] obtain d where
    d: "AfreecaTVLiveIE_real_extract h url_id url_bno password = Inr d" and f: "formats d = []"
    by blast
  from live_Inr[OF assms d] d f
  show "\<exists>d. AfreecaTVLiveIE_real_extract h url_id url_bno password = Inr d
                    \<and> formats d = []
                    \<and> info_id d = broadcast_no_of channel_info url_bno
                    \<and> is_live d"
    by simp
qed

text \<open>
  C5 as stated promises a result whenever a broadcast number was found and no probe
  succeeded. For the channel that is protected by a password, with no password given,
  the number is found and no quality yields an access token, yet the run fails.
\<close>

theorem C5_counterexample:
  "channel_info_of (sample_host (live_answers ''pyh3646'' protected_channel JNull JNull)) ''pyh3646''
     = Inr protected_channel
   \<and> broadcast_no_of protected_channel None = JStr ''237852185''
   \<and> filter (\<lambda>q. truthy (access_token
                 (sample_host (live_answers ''pyh3646'' protected_channel JNull JNull))
                 (JStr ''237852185'') None q)) QUALITIES = []
   \<and> AfreecaTVLiveIE_real_extract
       (sample_host (live_answers ''pyh3646'' protected_channel JNull JNull)) ''pyh3646'' None None
     = Inl (ExtractorError
             ''This livestream is protected by a password, use the --video-password option''
             True)"
  by code_simp

text \<open>A channel on air whose probes all fail, and an answer without a channel.\<close>

theorem C5_witness:
  "channel_info_of (sample_host (live_answers ''pyh3646'' sample_channel JNull JNull)) ''pyh3646''
     = Inr sample_channel
   \<and> is_dict sample_channel
   \<and> truthy (broadcast_no_of sample_channel None)
   \<and> \<not> (traverse_key sample_channel ''BPWD'' = JStr ''Y'' \<and> (None :: string option) = None)
   \<and> is_dict (station_info_of (sample_host (live_answers ''pyh3646'' sample_channel JNull JNull))
                (broadcaster_id_of sample_channel ''pyh3646''))
   \<and> list_all (probe_fails (sample_host (live_answers ''pyh3646'' sample_channel JNull JNull))
                 sample_channel (broadcast_no_of sample_channel None) None) QUALITIES
   \<and> (\<exists>d. AfreecaTVLiveIE_real_extract
              (sample_host (live_answers ''pyh3646'' sample_channel JNull JNull))
              ''pyh3646'' None None = Inr d
          \<and> formats d = [] \<and> info_id d = JStr ''237852185'' \<and> is_live d)
   \<and> channel_info_of (sample_host (live_answers ''pyh3646'' (JObj []) JNull JNull)) ''pyh3646''
     = Inr (JObj [])
   \<and> \<not> truthy (broadcast_no_of (JObj []) None)
   \<and> AfreecaTVLiveIE_real_extract
        (sample_host (live_answers ''pyh3646'' (JObj []) JNull JNull)) ''pyh3646'' None None
       = Inl (ExtractorError ''Unable to extract broadcast number (pyh3646 may not be live)'' True)"
proof -
  let ?h = "sample_host (live_answers ''pyh3646'' sample_channel JNull JNull)"
  let ?g = "sample_host (live_answers ''pyh3646'' (JObj []) JNull JNull)"
  have c: "channel_info_of ?h ''pyh3646'' = Inr sample_channel" by code_simp
  have d: "is_dict sample_channel" by code_simp
  have b: "truthy (broadcast_no_of sample_channel None)" by code_simp
  have bv: "broadcast_no_of sample_channel None = JStr ''237852185''" by code_simp
  have p: "\<not> (traverse_key sample_channel ''BPWD'' = JStr ''Y'' \<and> (None :: string option) = None)"
    by code_simp
  have st: "is_dict (station_info_of ?h (broadcaster_id_of sample_channel ''pyh3646''))"
    by code_simp
  have pf: "list_all (probe_fails ?h sample_channel (broadcast_no_of sample_channel None) None)
              QUALITIES" by code_simp
  then have pf': "\<forall>q\<in>set QUALITIES.
      probe_fails ?h sample_channel (broadcast_no_of sample_channel None) None q"
    by (simp add: list_all_iff)
  have c0: "channel_info_of ?g ''pyh3646'' = Inr (JObj [])" by code_simp
  have d0: "is_dict (JObj [])" by simp
  have b0: "\<not> truthy (broadcast_no_of (JObj []) None)" by code_simp
  have id0: "py_str ?g (broadcaster_id_of (JObj []) ''pyh3646'') = ''pyh3646''" by code_simp
  from C5_no_stream[OF c d, of None None] b p st pf' bv
  have r1: "\<exists>d. AfreecaTVLiveIE_real_extract ?h ''pyh3646'' None None = Inr d
          \<and> formats d = [] \<and> info_id d = JStr ''237852185'' \<and> is_live d"
    by simp
  from C5_no_stream[OF c0 d0, of None None] b0 id0
  have r2: "AfreecaTVLiveIE_real_extract ?g ''pyh3646'' None None
       = Inl (ExtractorError ''Unable to extract broadcast number (pyh3646 may not be live)'' True)"
    by simp
  show ?thesis
    by (intro conjI) (rule c d b p st pf r1 c0 b0 r2)+
qed

subsection \<open>C8: title, uploader and start time of a live broadcast\<close>

text \<open>
  C8, as amended. Let the channel answer be a dict and the run return. The title is the
  channel's \<^verbatim>\<open>TITLE\<close> when that is present (not empty), and the \<^verbatim>\<open>station_title\<close> of
  the station status otherwise; the uploader is the channel's \<^verbatim>\<open>BJNICK\<close> when present,
  and the \<^verbatim>\<open>station_name\<close> otherwise. The timestamp is always read from the
  \<^verbatim>\<open>broad_start\<close> of the station status; the channel answer is not consulted for it.
\<close>

theorem C8_live_metadata:
  assumes "channel_info_of h url_id = Inr channel_info" and "is_dict channel_info"
    and "AfreecaTVLiveIE_real_extract h url_id url_bno password = Inr d"
  shows "title d =
           (if truthy (traverse_key channel_info ''TITLE'')
            then traverse_key channel_info ''TITLE''
            else traverse_key (station_info_of h (broadcaster_id_of channel_info url_id))
                   ''station_title'')
       \<and> uploader d =
           (if truthy (traverse_key channel_info ''BJNICK'')
            then traverse_key channel_info ''BJNICK''
            else traverse_key (station_info_of h (broadcaster_id_of channel_info url_id))
                   ''station_name'')
       \<and> timestamp d =
           unified_timestamp h
             (traverse_key (station_info_of h (broadcaster_id_of channel_info url_id))
                ''broad_start'')"
  using live_Inr[OF assms] by (simp add: py_or_def)

text \<open>
  There is no field of the channel answer from which the timestamp is taken whenever
  the field is present.
\<close>

lemma no_channel_field_is_the_start:
  "\<not> (\<exists>k. \<forall>h url_id url_bno password channel_info d.
          channel_info_of h url_id = Inr channel_info \<and> is_dict channel_info
          \<and> truthy (traverse_key channel_info k)
          \<and> AfreecaTVLiveIE_real_extract h url_id url_bno password = Inr d
          \<longrightarrow> timestamp d = unified_timestamp h (traverse_key channel_info k))"
proof (rule notI, elim exE)
  fix k :: string
  assume claim: "\<forall>h url_id url_bno password channel_info d.
          channel_info_of h url_id = Inr channel_info \<and> is_dict channel_info
          \<and> truthy (traverse_key channel_info k)
          \<and> AfreecaTVLiveIE_real_extract h url_id url_bno password = Inr d
          \<longrightarrow> timestamp d = unified_timestamp h (traverse_key channel_info k)"
  define ch where "ch = JObj [(k, JStr ''2024-04-06 12:25:43''), (''BNO'', JStr ''1'')]"
  define H where "H = sample_host (live_answers ''x'' ch JNull JNull)"
  have dl: "\<And>r. r \<noteq> bid_request ''x'' \<Longrightarrow> r \<noteq> station_request JNull \<Longrightarrow>
              download_json_nonfatal H r = JBool False"
    by (simp add: H_def sample_host_def live_answers_def download_json_nonfatal_def
          unreachable_def)
  have c1: "channel_info_of H ''x'' = Inr ch"
    by (simp add: channel_info_of_def H_def sample_host_def live_answers_def
          download_json_nonfatal_def py_or_def bind_def ch_def)
  have c2: "is_dict ch" by (simp add: ch_def)
  have c3: "truthy (traverse_key ch k)" by (simp add: ch_def)
  have kv: "traverse_key ch k = JStr ''2024-04-06 12:25:43''" by (simp add: ch_def)
  have bno: "truthy (broadcast_no_of ch None)"
    by (simp add: broadcast_no_of_def py_or_def ch_def)
  have pw: "\<not> (traverse_key ch ''BPWD'' = JStr ''Y'' \<and> (None :: string option) = None)"
    by (simp add: ch_def)
  have bid: "broadcaster_id_of ch ''x'' \<noteq> JNull"
    by (simp add: broadcaster_id_of_def py_or_def ch_def)
  have st: "station_info_of H (broadcaster_id_of ch ''x'') = JObj []"
  proof -
    have "download_json_nonfatal H (station_request (broadcaster_id_of ch ''x'')) = JBool False"
      using bid by (intro dl) (simp_all add: station_request_def bid_request_def LIVE_API_URL_def)
    then show ?thesis by (simp add: station_info_of_def py_or_def)
  qed
  have tok: "\<And>q. access_token H (broadcast_no_of ch None) None q = JNull"
  proof -
    fix q
    have "download_json_nonfatal H (aid_request (broadcast_no_of ch None) None q) = JBool False"
      by (intro dl) (simp_all add: station_request_def bid_request_def aid_request_def
            LIVE_API_URL_def)
    then show "access_token H (broadcast_no_of ch None) None q = JNull"
      by (simp add: access_token_def)
  qed
  have pf: "\<forall>q\<in>set QUALITIES. probe_fails H ch (broadcast_no_of ch None) None q"
    by (simp add: probe_fails_def tok)
  have fm: "live_formats H ch (broadcast_no_of ch None) None QUALITIES = Inr []"
    using live_formats_fail[OF pf] .
  have sd: "is_dict (station_info_of H (broadcaster_id_of ch ''x''))" by (simp add: st)
  from live_total[OF c1 c2 bno pw fm sd] obtain d where
    d: "AfreecaTVLiveIE_real_extract H ''x'' None None = Inr d" by blast
  from live_Inr[OF c1 c2 d] have t: "timestamp d = None" by (simp add: st)
  note c = claim[rule_format, where h = H and url_id = "''x''" and url_bno = None
      and password = None and channel_info = ch and d = d]
  have "timestamp d = unified_timestamp H (traverse_key ch k)"
    by (rule c) (intro conjI c1 c2 c3 d)
  with t kv show False by (simp add: H_def sample_host_def)
qed

text \<open>
  C8 as stated has the start time taken from the channel answer when present there. A
  channel answer carries title, uploader and a start time, and the station status does
  not answer: title and uploader are the channel's, but there is no timestamp, where the
  start time of the channel reads as 1712406343. By the lemma above this is so whatever
  the field is called.
\<close>

theorem C8_counterexample:
  "AfreecaTVLiveIE_real_extract
      (sample_host (live_answers ''pyh3646'' channel_with_start JNull JNull)) ''pyh3646'' None None
     = Inr \<lparr> info_id = JStr ''237852185'', title = JStr ''A title'', uploader = JStr ''A nick'',
             uploader_id = JStr ''pyh3646'', duration = None, thumbnail = None,
             timestamp = None, formats = [], is_live = True \<rparr>
   \<and> unified_timestamp (sample_host (live_answers ''pyh3646'' channel_with_start JNull JNull))
       (traverse_key channel_with_start ''broad_start'') = Some 1712406343
   \<and> \<not> (\<exists>k. \<forall>h url_id url_bno password channel_info d.
          channel_info_of h url_id = Inr channel_info \<and> is_dict channel_info
          \<and> truthy (traverse_key channel_info k)
          \<and> AfreecaTVLiveIE_real_extract h url_id url_bno password = Inr d
          \<longrightarrow> timestamp d = unified_timestamp h (traverse_key channel_info k))"
proof -
  have a: "AfreecaTVLiveIE_real_extract
      (sample_host (live_answers ''pyh3646'' channel_with_start JNull JNull)) ''pyh3646'' None None
     = Inr \<lparr> info_id = JStr ''237852185'', title = JStr ''A title'', uploader = JStr ''A nick'',
             uploader_id = JStr ''pyh3646'', duration = None, thumbnail = None,
             timestamp = None, formats = [], is_live = True \<rparr>" by code_simp
  have b: "unified_timestamp (sample_host (live_answers ''pyh3646'' channel_with_start JNull JNull))
       (traverse_key channel_with_start ''broad_start'') = Some 1712406343" by code_simp
  show ?thesis by (intro conjI) (rule a b no_channel_field_is_the_start)+
qed

text \<open>A run whose channel has a title but no nickname: the title is the channel's, the
  uploader and the timestamp are the station's.\<close>

theorem C8_witness:
  "channel_info_of (sample_host stream_answers) ''pyh3646'' = Inr sample_channel
   \<and> is_dict sample_channel
   \<and> AfreecaTVLiveIE_real_extract (sample_host stream_answers) ''pyh3646'' None None
       = Inr \<lparr> info_id = JStr ''237852185'', title = JStr ''A title'', uploader = JStr ''A name'',
               uploader_id = JStr ''pyh3646'', duration = None, thumbnail = None,
               timestamp = Some 1712406343,
               formats = [\<lparr> format_id = ''hd'',
                            url = ''https://live-hd.afreecatv.com/playlist.m3u8?aid=token-hd'',
                            ext = Some ''mp4'', protocol = Some ''m3u8'', quality = Some 1 \<rparr>],
               is_live = True \<rparr>
   \<and> traverse_key sample_channel ''TITLE'' = JStr ''A title''
   \<and> traverse_key sample_channel ''BJNICK'' = JNull
   \<and> station_info_of (sample_host stream_answers) (broadcaster_id_of sample_channel ''pyh3646'')
       = sample_station
   \<and> title \<lparr> info_id = JStr ''237852185'', title = JStr ''A title'', uploader = JStr ''A name'',
               uploader_id = JStr ''pyh3646'', duration = None, thumbnail = None,
               timestamp = Some 1712406343,
               formats = [\<lparr> format_id = ''hd'',
                            url = ''https://live-hd.afreecatv.com/playlist.m3u8?aid=token-hd'',
                            ext = Some ''mp4'', protocol = Some ''m3u8'', quality = Some 1 \<rparr>],
               is_live = True \<rparr> = traverse_key sample_channel ''TITLE''
   \<and> uploader \<lparr> info_id = JStr ''237852185'', title = JStr ''A title'', uploader = JStr ''A name'',
               uploader_id = JStr ''pyh3646'', duration = None, thumbnail = None,
               timestamp = Some 1712406343,
               formats = [\<lparr> format_id = ''hd'',
                            url = ''https://live-hd.afreecatv.com/playlist.m3u8?aid=token-hd'',
                            ext = Some ''mp4'', protocol = Some ''m3u8'', quality = Some 1 \<rparr>],
               is_live = True \<rparr> = traverse_key sample_station ''station_name''"
proof -
  let ?d = "\<lparr> info_id = JStr ''237852185'', title = JStr ''A title'', uploader = JStr ''A name'',
               uploader_id = JStr ''pyh3646'', duration = None, thumbnail = None,
               timestamp = Some 1712406343,
               formats = [\<lparr> format_id = ''hd'',
                            url = ''https://live-hd.afreecatv.com/playlist.m3u8?aid=token-hd'',
                            ext = Some ''mp4'', protocol = Some ''m3u8'', quality = Some 1 \<rparr>],
               is_live = True \<rparr>"
  have c: "channel_info_of (sample_host stream_answers) ''pyh3646'' = Inr sample_channel"
    by code_simp
  have di: "is_dict sample_channel" by code_simp
  have r: "AfreecaTVLiveIE_real_extract (sample_host stream_answers) ''pyh3646'' None None = Inr ?d"
    by code_simp
  have t: "traverse_key sample_channel ''TITLE'' = JStr ''A title''" by code_simp
  have n: "traverse_key sample_channel ''BJNICK'' = JNull" by code_simp
  have s: "station_info_of (sample_host stream_answers) (broadcaster_id_of sample_channel ''pyh3646'')
       = sample_station" by code_simp
  from C8_live_metadata[OF c di r] t n s
  have m: "title ?d = traverse_key sample_channel ''TITLE''"
    and u: "uploader ?d = traverse_key sample_station ''station_name''" by simp_all
  show ?thesis by (intro conjI) (rule c di r t n s m u)+
qed

subsection \<open>C6: every format comes with its address\<close>








subsection \<open>C9: the pages of a listing\<close>



text \<open>A page that raises ends the reading with its exception.\<close>

lemma paged_from_raises:
  "fst (getpage n) = Inl e \<Longrightarrow> paged_from getpage n = Some (Inl e, snd (getpage n))"
  by (subst paged_from.simps) (cases "getpage n", simp)





end
